theory Spec2Isabelle
  imports Main "HOL-Library.Multiset"
begin

section \<open>The webhook router of useSend\<close>

text \<open>
  A shallow embedding of \<^verbatim>\<open>apps/web/src/server/api/routers/webhook.ts\<close>: the tRPC
  procedures \<^verbatim>\<open>create\<close>, \<^verbatim>\<open>update\<close>, \<^verbatim>\<open>setStatus\<close>, \<^verbatim>\<open>listCalls\<close> and \<^verbatim>\<open>getCall\<close>.
  The database is explicit state: every procedure takes the store and returns its outcome
  together with the store it leaves behind, so that a thrown \<^verbatim>\<open>TRPCError\<close> is a value
  (\<open>Inl\<close>) and "the failed call wrote nothing" is a statement about the returned store.
  A JavaScript string is a \<open>string\<close>, one \<open>char\<close> for each unit that \<^verbatim>\<open>.length\<close>
  counts; \<^verbatim>\<open>undefined\<close> and \<^verbatim>\<open>null\<close> are \<open>None\<close>.
\<close>

subsection \<open>Data\<close>

text \<open>
  Modelled from the spec: the Prisma enums \<^verbatim>\<open>Plan\<close>, \<^verbatim>\<open>WebhookStatus\<close> and
  \<^verbatim>\<open>WebhookCallStatus\<close> come from the generated client, whose schema is not part of the
  sources at hand. The router names only \<^verbatim>\<open>"FREE"\<close>, \<^verbatim>\<open>ACTIVE\<close> and \<^verbatim>\<open>DELETED\<close>; the
  other members follow the data model of the spec (plan tiers free and paid; subscription
  status ACTIVE, PAUSED, DISABLED, DELETED; call status PENDING, SUCCESS, FAILED).
\<close>

datatype Plan = FREE | PAID

datatype WebhookStatus = ACTIVE | PAUSED | DISABLED | DELETED

datatype WebhookCallStatus = PENDING | SUCCESS | FAILED

text \<open>The columns of a \<^verbatim>\<open>webhook\<close> row that the router reads or writes.\<close>

record Webhook =
  w_id :: string
  w_teamId :: string
  w_url :: string
  w_description :: "string option"
  w_secret :: string
  w_eventTypes :: "string list"
  w_status :: WebhookStatus
  w_consecutiveFailures :: int
  w_createdByUserId :: string
  w_createdAt :: int

text \<open>The columns of a \<^verbatim>\<open>webhookCall\<close> row that the router reads.\<close>

record WebhookCall =
  c_id :: string
  c_teamId :: string
  c_webhookId :: string
  c_status :: WebhookCallStatus
  c_createdAt :: int

record store =
  webhooks :: "Webhook list"
  webhookCalls :: "WebhookCall list"

text \<open>\<^verbatim>\<open>ctx.team\<close> and \<^verbatim>\<open>ctx.session.user.id\<close>, as \<^verbatim>\<open>teamProcedure\<close> hands them over.\<close>

record Team =
  t_id :: string
  isActive :: bool
  plan :: Plan

record ctx =
  team :: Team
  session_user_id :: string

text \<open>
  What a call takes from outside the router: the constant \<^verbatim>\<open>WEBHOOK_EVENT_TYPES\<close>
  (imported from \<^verbatim>\<open>webhook-events\<close>, not at hand), the check behind zod's
  \<^verbatim>\<open>z.string().url()\<close>, the bytes the random source yields to this call, and the columns
  the database fills in by itself when a row is created (its id, its creation time and the
  schema's default for \<^verbatim>\<open>consecutiveFailures\<close>). The id is the key by which
  \<^verbatim>\<open>update\<close> addresses a row; that no two stored rows share one is the database's
  business, and a result that depends on it says so.
\<close>

record env =
  WEBHOOK_EVENT_TYPES :: "string list"
  isUrl :: "string \<Rightarrow> bool"
  randomBytes :: "nat \<Rightarrow> char"
  cuid :: string
  now :: int
  defaultConsecutiveFailures :: int

text \<open>
  The codes of the errors the procedures throw. \<open>FORBIDDEN count limit\<close> stands for the
  message \<^verbatim>\<open>Webhook limit reached: ${count}/${limit}. Upgrade plan to add more.\<close>,
  \<open>NOT_FOUND\<close> carries its message, and \<open>BAD_REQUEST\<close> is what tRPC throws when the
  input does not parse against the procedure's schema; it carries the messages that the
  schema itself attaches to a failed check (those of a \<^verbatim>\<open>refine\<close>), not the texts zod
  words for its built-in checks.
\<close>

datatype TRPCError = BAD_REQUEST "string list" | FORBIDDEN nat nat | NOT_FOUND string

type_synonym 'a outcome = "(TRPCError + 'a) \<times> store"

subsection \<open>The database operations the router calls\<close>

text \<open>\<^verbatim>\<open>db.webhook.findFirst({ where: { id, teamId } })\<close>\<close>

definition webhook_findFirst :: "string \<Rightarrow> string \<Rightarrow> store \<Rightarrow> Webhook option" where
  "webhook_findFirst i t db = find (\<lambda>w. w_id w = i \<and> w_teamId w = t) (webhooks db)"

text \<open>\<^verbatim>\<open>db.webhook.count({ where: { teamId, status: { not: DELETED } } })\<close>\<close>

definition webhook_count :: "string \<Rightarrow> store \<Rightarrow> nat" where
  "webhook_count t db =
     length (filter (\<lambda>w. w_teamId w = t \<and> w_status w \<noteq> DELETED) (webhooks db))"

text \<open>\<^verbatim>\<open>db.webhook.create({ data })\<close>: the new row joins the table.\<close>

definition webhook_create :: "Webhook \<Rightarrow> store \<Rightarrow> store" where
  "webhook_create row db = db\<lparr>webhooks := webhooks db @ [row]\<rparr>"

text \<open>\<^verbatim>\<open>db.webhook.update({ where: { id }, data })\<close>: the row of that id takes the data.\<close>

definition webhook_update :: "string \<Rightarrow> (Webhook \<Rightarrow> Webhook) \<Rightarrow> store \<Rightarrow> store" where
  "webhook_update i f db =
     db\<lparr>webhooks := map (\<lambda>w. if w_id w = i then f w else w) (webhooks db)\<rparr>"

text \<open>\<^verbatim>\<open>db.webhookCall.findFirst({ where: { id, teamId } })\<close>\<close>

definition webhookCall_findFirst :: "string \<Rightarrow> string \<Rightarrow> store \<Rightarrow> WebhookCall option" where
  "webhookCall_findFirst i t db =
     find (\<lambda>c. c_id c = i \<and> c_teamId c = t) (webhookCalls db)"

text \<open>
  The \<^verbatim>\<open>where\<close> of \<^verbatim>\<open>listCalls\<close>: \<^verbatim>\<open>{ teamId, webhookId, status }\<close>, in which a
  filter that is \<^verbatim>\<open>undefined\<close> matches every row.
\<close>

definition webhookCall_where ::
  "string \<Rightarrow> string option \<Rightarrow> WebhookCallStatus option \<Rightarrow> WebhookCall \<Rightarrow> bool" where
  "webhookCall_where t wid st c =
     (c_teamId c = t
      \<and> (case wid of None \<Rightarrow> True | Some i \<Rightarrow> c_webhookId c = i)
      \<and> (case st of None \<Rightarrow> True | Some s \<Rightarrow> c_status c = s))"

text \<open>
  \<^verbatim>\<open>db.webhookCall.findMany({ where, orderBy: { createdAt: "desc" }, take, cursor })\<close>:
  the rows that match, newest first (rows of equal \<^verbatim>\<open>createdAt\<close> in table order), from
  the cursor row on (that row included), at most \<open>n\<close> of them.
\<close>

definition webhookCall_findMany ::
  "string \<Rightarrow> string option \<Rightarrow> WebhookCallStatus option \<Rightarrow> nat \<Rightarrow> string option \<Rightarrow> store
     \<Rightarrow> WebhookCall list" where
  "webhookCall_findMany t wid st n cur db =
     (let matching = filter (webhookCall_where t wid st) (webhookCalls db);
          ordered = sort_key (\<lambda>c. - c_createdAt c) matching;
          positioned = (case cur of None \<Rightarrow> ordered
                        | Some i \<Rightarrow> dropWhile (\<lambda>c. c_id c \<noteq> i) ordered)
      in take n positioned)"

subsection \<open>The secret generator\<close>

text \<open>
  Modelled from the spec: \<^verbatim>\<open>WebhookService.generateSecret\<close> lives in
  \<^verbatim>\<open>server/service/webhook-service\<close>, which is not part of the sources at hand. The spec
  (4.1) has it produce "a fresh high-entropy opaque token (\<ge>16 bytes)" with no side effect
  "beyond randomness consumption": here the token is sixteen bytes drawn from the random
  source of the call.
\<close>

definition generateSecret :: "env \<Rightarrow> string" where
  "generateSecret e = map (randomBytes e) [0..<16]"

subsection \<open>A procedure: input schema, then resolver\<close>

text \<open>
  \<^verbatim>\<open>teamProcedure.input(schema).mutation(resolver)\<close>: the raw input is parsed against the
  schema; when it does not parse the call fails before the resolver runs, otherwise the
  resolver gets the parsed value.
\<close>

definition procedure ::
  "('i \<Rightarrow> TRPCError + 'p) \<Rightarrow> ('p \<Rightarrow> store \<Rightarrow> 'a outcome) \<Rightarrow> 'i \<Rightarrow> store \<Rightarrow> 'a outcome" where
  "procedure schema resolver raw db =
     (case schema raw of Inl err \<Rightarrow> (Inl err, db) | Inr inp \<Rightarrow> resolver inp db)"

text \<open>\<^verbatim>\<open>EVENT_TYPES_ENUM = z.enum(WEBHOOK_EVENT_TYPES)\<close>, and an array of at least one.\<close>

definition EVENT_TYPES_ENUM :: "env \<Rightarrow> string \<Rightarrow> bool" where
  "EVENT_TYPES_ENUM e s = (s \<in> set (WEBHOOK_EVENT_TYPES e))"

definition eventTypes_schema :: "env \<Rightarrow> string list \<Rightarrow> bool" where
  "eventTypes_schema e ts = (list_all (EVENT_TYPES_ENUM e) ts \<and> 1 \<le> length ts)"

text \<open>\<^verbatim>\<open>schema.optional()\<close>\<close>

definition optional :: "('a \<Rightarrow> bool) \<Rightarrow> 'a option \<Rightarrow> bool" where
  "optional p v = (case v of None \<Rightarrow> True | Some x \<Rightarrow> p x)"

subsection \<open>getWebhookLimit\<close>

definition PLAN_WEBHOOK_LIMIT_FREE :: nat where
  "PLAN_WEBHOOK_LIMIT_FREE = 1"

definition PLAN_WEBHOOK_LIMIT_PAID :: nat where
  "PLAN_WEBHOOK_LIMIT_PAID = 3"

definition getWebhookLimit :: "Team \<Rightarrow> nat" where
  "getWebhookLimit tm =
     (let isPaid = (isActive tm \<and> plan tm \<noteq> FREE)
      in if isPaid then PLAN_WEBHOOK_LIMIT_PAID else PLAN_WEBHOOK_LIMIT_FREE)"

subsection \<open>create\<close>

record CreateInput =
  ci_url :: string
  ci_description :: "string option"
  ci_eventTypes :: "string list"
  ci_secret :: "string option"

definition create_input :: "env \<Rightarrow> CreateInput \<Rightarrow> TRPCError + CreateInput" where
  "create_input e inp =
     (if isUrl e (ci_url inp)
         \<and> eventTypes_schema e (ci_eventTypes inp)
         \<and> optional (\<lambda>s. 16 \<le> length s) (ci_secret inp)
      then Inr inp else Inl (BAD_REQUEST []))"

definition create_mutation :: "env \<Rightarrow> ctx \<Rightarrow> CreateInput \<Rightarrow> store \<Rightarrow> Webhook outcome" where
  "create_mutation e c inp db =
     (let limit = getWebhookLimit (team c);
          count = webhook_count (t_id (team c)) db
      in if count \<ge> limit then (Inl (FORBIDDEN count limit), db)
         else
           let secret = (case ci_secret inp of Some s \<Rightarrow> s | None \<Rightarrow> generateSecret e);
               row = \<lparr>w_id = cuid e,
                      w_teamId = t_id (team c),
                      w_url = ci_url inp,
                      w_description = ci_description inp,
                      w_secret = secret,
                      w_eventTypes = ci_eventTypes inp,
                      w_status = ACTIVE,
                      w_consecutiveFailures = defaultConsecutiveFailures e,
                      w_createdByUserId = session_user_id c,
                      w_createdAt = now e\<rparr>
           in (Inr row, webhook_create row db))"

definition create :: "env \<Rightarrow> ctx \<Rightarrow> CreateInput \<Rightarrow> store \<Rightarrow> Webhook outcome" where
  "create e c = procedure (create_input e) (create_mutation e c)"

text \<open>
  The resolver reaches the table twice: it awaits \<^verbatim>\<open>db.webhook.count\<close> (lines 41 to 54,
  the check), and only then awaits \<^verbatim>\<open>db.webhook.create\<close> (lines 56 to 68, the insert);
  nothing ties the two together (no transaction, no lock). \<open>create_mutation\<close> above is
  the resolver running alone, both steps on one store. The two steps by themselves:
\<close>

definition create_limit_check :: "ctx \<Rightarrow> store \<Rightarrow> TRPCError option" where
  "create_limit_check c db =
     (let limit = getWebhookLimit (team c);
          count = webhook_count (t_id (team c)) db
      in if count \<ge> limit then Some (FORBIDDEN count limit) else None)"

definition create_insert :: "env \<Rightarrow> ctx \<Rightarrow> CreateInput \<Rightarrow> store \<Rightarrow> Webhook outcome" where
  "create_insert e c inp db =
     (let secret = (case ci_secret inp of Some s \<Rightarrow> s | None \<Rightarrow> generateSecret e);
          row = \<lparr>w_id = cuid e,
                 w_teamId = t_id (team c),
                 w_url = ci_url inp,
                 w_description = ci_description inp,
                 w_secret = secret,
                 w_eventTypes = ci_eventTypes inp,
                 w_status = ACTIVE,
                 w_consecutiveFailures = defaultConsecutiveFailures e,
                 w_createdByUserId = session_user_id c,
                 w_createdAt = now e\<rparr>
      in (Inr row, webhook_create row db))"

text \<open>
  Two \<open>create\<close> requests that overlap: the server takes up the second while the first
  is suspended at its \<^verbatim>\<open>await\<close> of the count, so both are parsed and both count on the
  store as it stands; then the first inserts, and the second inserts into what the first
  left. The result is the outcome of each request and the store after both.
\<close>

definition create_overlapped ::
  "env \<Rightarrow> ctx \<Rightarrow> CreateInput \<Rightarrow> env \<Rightarrow> ctx \<Rightarrow> CreateInput \<Rightarrow> store
     \<Rightarrow> (TRPCError + Webhook) \<times> (TRPCError + Webhook) \<times> store" where
  "create_overlapped e1 c1 raw1 e2 c2 raw2 db =
     (let checked1 = (case create_input e1 raw1 of
                        Inl err \<Rightarrow> Inl err
                      | Inr inp \<Rightarrow> (case create_limit_check c1 db of
                                     Some err \<Rightarrow> Inl err | None \<Rightarrow> Inr inp));
          checked2 = (case create_input e2 raw2 of
                        Inl err \<Rightarrow> Inl err
                      | Inr inp \<Rightarrow> (case create_limit_check c2 db of
                                     Some err \<Rightarrow> Inl err | None \<Rightarrow> Inr inp));
          first = (case checked1 of
                     Inl err \<Rightarrow> (Inl err, db)
                   | Inr inp \<Rightarrow> create_insert e1 c1 inp db);
          second = (case checked2 of
                      Inl err \<Rightarrow> (Inl err, snd first)
                    | Inr inp \<Rightarrow> create_insert e2 c2 inp (snd first))
      in (fst first, fst second, snd second))"

subsection \<open>update\<close>

text \<open>
  \<open>ui_description\<close> tells \<^verbatim>\<open>undefined\<close> (\<open>None\<close>) from \<^verbatim>\<open>null\<close> (\<open>Some None\<close>), as
  \<^verbatim>\<open>z.string().nullable().optional()\<close> does.
\<close>

record UpdateInput =
  ui_id :: string
  ui_url :: "string option"
  ui_description :: "string option option"
  ui_eventTypes :: "string list option"
  ui_rotateSecret :: "bool option"
  ui_secret :: "string option"

definition update_input :: "env \<Rightarrow> UpdateInput \<Rightarrow> TRPCError + UpdateInput" where
  "update_input e inp =
     (if optional (isUrl e) (ui_url inp)
         \<and> optional (eventTypes_schema e) (ui_eventTypes inp)
         \<and> optional (\<lambda>s. 16 \<le> length s) (ui_secret inp)
      then Inr inp else Inl (BAD_REQUEST []))"

definition update_mutation :: "env \<Rightarrow> ctx \<Rightarrow> UpdateInput \<Rightarrow> store \<Rightarrow> Webhook outcome" where
  "update_mutation e c inp db =
     (case webhook_findFirst (ui_id inp) (t_id (team c)) db of
        None \<Rightarrow> (Inl (NOT_FOUND ''Webhook not found''), db)
      | Some webhook \<Rightarrow>
          if w_status webhook = DELETED then (Inl (NOT_FOUND ''Webhook not found''), db)
          else
            let secret = (if ui_rotateSecret inp = Some True then Some (generateSecret e)
                          else ui_secret inp);
                data = (\<lambda>w. w\<lparr>w_url := (case ui_url inp of Some u \<Rightarrow> u | None \<Rightarrow> w_url webhook),
                              w_description := (case ui_description inp of
                                                  None \<Rightarrow> w_description webhook
                                                | Some d \<Rightarrow> d),
                              w_eventTypes := (case ui_eventTypes inp of
                                                 Some ts \<Rightarrow> ts
                                               | None \<Rightarrow> w_eventTypes webhook),
                              w_secret := (case secret of
                                             Some s \<Rightarrow> s
                                           | None \<Rightarrow> w_secret webhook)\<rparr>)
            in (Inr (data webhook), webhook_update (w_id webhook) data db))"

definition update :: "env \<Rightarrow> ctx \<Rightarrow> UpdateInput \<Rightarrow> store \<Rightarrow> Webhook outcome" where
  "update e c = procedure (update_input e) (update_mutation e c)"

subsection \<open>setStatus\<close>

record SetStatusInput =
  si_id :: string
  si_status :: WebhookStatus

text \<open>The \<^verbatim>\<open>refine\<close> of the schema: \<^verbatim>\<open>s !== WebhookStatus.DELETED\<close>.\<close>

definition setStatus_input :: "SetStatusInput \<Rightarrow> TRPCError + SetStatusInput" where
  "setStatus_input inp =
     (if si_status inp \<noteq> DELETED then Inr inp
      else Inl (BAD_REQUEST [''Deletion not supported here'']))"

definition setStatus_mutation :: "ctx \<Rightarrow> SetStatusInput \<Rightarrow> store \<Rightarrow> Webhook outcome" where
  "setStatus_mutation c inp db =
     (case webhook_findFirst (si_id inp) (t_id (team c)) db of
        None \<Rightarrow> (Inl (NOT_FOUND ''Webhook not found''), db)
      | Some webhook \<Rightarrow>
          if w_status webhook = DELETED then (Inl (NOT_FOUND ''Webhook not found''), db)
          else
            let data = (\<lambda>w. w\<lparr>w_status := si_status inp,
                              w_consecutiveFailures :=
                                (if si_status inp = ACTIVE then 0
                                 else w_consecutiveFailures webhook)\<rparr>)
            in (Inr (data webhook), webhook_update (w_id webhook) data db))"

definition setStatus :: "ctx \<Rightarrow> SetStatusInput \<Rightarrow> store \<Rightarrow> Webhook outcome" where
  "setStatus c = procedure setStatus_input (setStatus_mutation c)"

subsection \<open>listCalls\<close>

text \<open>
  The page size is a number of rows and is an \<open>int\<close> here: \<^verbatim>\<open>take\<close> accepts nothing
  else. \<open>lci_limit = None\<close> is the omitted limit, which the schema replaces by 20.
\<close>

record ListCallsInput =
  lci_webhookId :: "string option"
  lci_status :: "WebhookCallStatus option"
  lci_limit :: "int option"
  lci_cursor :: "string option"

record ListCallsParsed =
  lc_webhookId :: "string option"
  lc_status :: "WebhookCallStatus option"
  lc_limit :: int
  lc_cursor :: "string option"

record ListCallsPage =
  items :: "WebhookCall list"
  nextCursor :: "string option"

definition listCalls_input :: "ListCallsInput \<Rightarrow> TRPCError + ListCallsParsed" where
  "listCalls_input inp =
     (let limit = (case lci_limit inp of None \<Rightarrow> 20 | Some n \<Rightarrow> n)
      in if 1 \<le> limit \<and> limit \<le> 50
         then Inr \<lparr>lc_webhookId = lci_webhookId inp, lc_status = lci_status inp,
                   lc_limit = limit, lc_cursor = lci_cursor inp\<rparr>
         else Inl (BAD_REQUEST []))"

text \<open>
  \<^verbatim>\<open>input.cursor ? { id: input.cursor } : undefined\<close>: the empty string is falsy.
  \<^verbatim>\<open>calls.pop()\<close> takes the last row off; \<^verbatim>\<open>next?.id ?? null\<close> is \<^verbatim>\<open>null\<close> when there was
  none.
\<close>

definition listCalls_query :: "ctx \<Rightarrow> ListCallsParsed \<Rightarrow> store \<Rightarrow> ListCallsPage outcome" where
  "listCalls_query c inp db =
     (let calls = webhookCall_findMany (t_id (team c)) (lc_webhookId inp) (lc_status inp)
                    (nat (lc_limit inp + 1))
                    (case lc_cursor inp of None \<Rightarrow> None
                     | Some s \<Rightarrow> if s = [] then None else Some s)
                    db
      in if int (length calls) > lc_limit inp
         then (Inr \<lparr>items = butlast calls,
                    nextCursor = (if calls = [] then None else Some (c_id (last calls)))\<rparr>, db)
         else (Inr \<lparr>items = calls, nextCursor = None\<rparr>, db))"

definition listCalls :: "ctx \<Rightarrow> ListCallsInput \<Rightarrow> store \<Rightarrow> ListCallsPage outcome" where
  "listCalls c = procedure listCalls_input (listCalls_query c)"

subsection \<open>getCall\<close>

definition getCall_query :: "ctx \<Rightarrow> string \<Rightarrow> store \<Rightarrow> WebhookCall outcome" where
  "getCall_query c i db =
     (case webhookCall_findFirst i (t_id (team c)) db of
        None \<Rightarrow> (Inl (NOT_FOUND ''Webhook call not found''), db)
      | Some call \<Rightarrow> (Inr call, db))"

definition getCall :: "ctx \<Rightarrow> string \<Rightarrow> store \<Rightarrow> WebhookCall outcome" where
  "getCall c = procedure Inr (getCall_query c)"

subsection \<open>The router serving requests\<close>

text \<open>
  The mutations that write subscriptions, one request after the other: each request is
  served on the store its predecessor left, whatever its outcome was.
\<close>

datatype request =
    Create env ctx CreateInput
  | Update env ctx UpdateInput
  | SetStatus ctx SetStatusInput

fun serve :: "request \<Rightarrow> store \<Rightarrow> store" where
  "serve (Create e c inp) db = snd (create e c inp db)"
| "serve (Update e c inp) db = snd (update e c inp db)"
| "serve (SetStatus c inp) db = snd (setStatus c inp db)"

fun serve_all :: "request list \<Rightarrow> store \<Rightarrow> store" where
  "serve_all [] db = db"
| "serve_all (r # rs) db = serve_all rs (serve r db)"

fun request_env :: "request \<Rightarrow> env option" where
  "request_env (Create e c inp) = Some e"
| "request_env (Update e c inp) = Some e"
| "request_env (SetStatus c inp) = None"

subsection \<open>Example data\<close>

text \<open>
  A small world on which the results below are run: two teams (one on the free plan, one
  paying), three subscriptions and five delivery records.
\<close>

definition example_env :: env where
  "example_env = \<lparr>WEBHOOK_EVENT_TYPES = [''email.sent'', ''email.bounced''],
                   isUrl = (\<lambda>s. take 8 s = ''https://''),
                   randomBytes = (\<lambda>k. CHR ''r''),
                   cuid = ''wh_new'',
                   now = 1700,
                   defaultConsecutiveFailures = 0\<rparr>"

definition free_team :: ctx where
  "free_team = \<lparr>team = \<lparr>t_id = ''team1'', isActive = True, plan = FREE\<rparr>,
                 session_user_id = ''user1''\<rparr>"

definition paid_team :: ctx where
  "paid_team = \<lparr>team = \<lparr>t_id = ''team2'', isActive = True, plan = PAID\<rparr>,
                 session_user_id = ''user2''\<rparr>"

definition hook :: "string \<Rightarrow> string \<Rightarrow> WebhookStatus \<Rightarrow> int \<Rightarrow> Webhook" where
  "hook i t s n = \<lparr>w_id = i, w_teamId = t, w_url = ''https://example.com/hook'',
                   w_description = None, w_secret = ''0123456789abcdef'',
                   w_eventTypes = [''email.sent''], w_status = s,
                   w_consecutiveFailures = n, w_createdByUserId = ''user1'',
                   w_createdAt = 1000\<rparr>"

definition delivery :: "string \<Rightarrow> string \<Rightarrow> string \<Rightarrow> WebhookCallStatus \<Rightarrow> int \<Rightarrow> WebhookCall" where
  "delivery i t w s at = \<lparr>c_id = i, c_teamId = t, c_webhookId = w, c_status = s, c_createdAt = at\<rparr>"

definition example_store :: store where
  "example_store =
     \<lparr>webhooks = [hook ''wh_a'' ''team1'' DELETED 0,
                  hook ''wh_b'' ''team1'' PAUSED 4,
                  hook ''wh_c'' ''team2'' ACTIVE 2],
      webhookCalls = [delivery ''c1'' ''team1'' ''wh_b'' SUCCESS 10,
                      delivery ''c2'' ''team1'' ''wh_b'' FAILED 30,
                      delivery ''c3'' ''team2'' ''wh_c'' SUCCESS 20,
                      delivery ''c4'' ''team1'' ''wh_b'' FAILED 20,
                      delivery ''c5'' ''team1'' ''wh_a'' SUCCESS 40]\<rparr>"

definition example_create :: CreateInput where
  "example_create = \<lparr>ci_url = ''https://example.com/in'', ci_description = None,
                      ci_eventTypes = [''email.sent''], ci_secret = None\<rparr>"

definition example_update :: UpdateInput where
  "example_update = \<lparr>ui_id = ''wh_b'', ui_url = None, ui_description = Some None,
                      ui_eventTypes = Some [''email.bounced''], ui_rotateSecret = Some True,
                      ui_secret = Some ''an-explicit-secret-of-the-caller''\<rparr>"

definition example_listCalls :: ListCallsInput where
  "example_listCalls = \<lparr>lci_webhookId = None, lci_status = None, lci_limit = Some 2,
                         lci_cursor = None\<rparr>"

definition empty_store :: store where
  "empty_store = \<lparr>webhooks = [], webhookCalls = []\<rparr>"

definition example_requests :: "request list" where
  "example_requests =
     [Create example_env free_team example_create,
      Create (example_env\<lparr>cuid := ''wh_2''\<rparr>) free_team
        (example_create\<lparr>ci_secret := Some ''too short''\<rparr>),
      Create (example_env\<lparr>cuid := ''wh_3''\<rparr>) paid_team
        (example_create\<lparr>ci_secret := Some ''a-secret-of-the-caller'',
                         ci_eventTypes := [''email.bounced'', ''email.sent'']\<rparr>),
      Update example_env free_team
        (example_update\<lparr>ui_id := ''wh_new'', ui_rotateSecret := None\<rparr>),
      SetStatus free_team \<lparr>si_id = ''wh_new'', si_status = PAUSED\<rparr>]"

section \<open>Properties of the router\<close>

subsection \<open>Auxiliary facts\<close>

lemma procedure_cases:
  "procedure schema resolver raw db =
     (case schema raw of Inl err \<Rightarrow> (Inl err, db) | Inr inp \<Rightarrow> resolver inp db)"
  by (simp add: procedure_def)

text \<open>A lookup by primary key finds the row that carries the key.\<close>

lemma find_primary_key:
  assumes "distinct (map f xs)" and "x \<in> set xs" and "P x" and "\<And>y. P y \<Longrightarrow> f y = f x"
  shows "find P xs = Some x"
  using assms(1,2)
proof (induction xs)
  case Nil
  then show ?case by simp
next
  case (Cons a xs)
  show ?case
  proof (cases "a = x")
    case True
    with assms(3) show ?thesis by simp
  next
    case False
    with Cons.prems have x: "x \<in> set xs" and a: "f a \<notin> f ` set xs" and d: "distinct (map f xs)"
      by auto
    from a x have "f a \<noteq> f x" by auto
    with assms(4) have "\<not> P a" by auto
    with Cons.IH [OF d x] show ?thesis by simp
  qed
qed

lemma find_SomeD: "find P xs = Some x \<Longrightarrow> x \<in> set xs \<and> P x"
  by (induction xs) (auto split: if_splits)


lemma webhook_findFirst_SomeD:
  "webhook_findFirst i t db = Some w \<Longrightarrow> w \<in> set (webhooks db) \<and> w_id w = i \<and> w_teamId w = t"
  unfolding webhook_findFirst_def by (drule find_SomeD) simp

lemma webhook_findFirst_primary_key:
  "distinct (map w_id (webhooks db)) \<Longrightarrow> w \<in> set (webhooks db) \<Longrightarrow>
   webhook_findFirst (w_id w) (w_teamId w) db = Some w"
  unfolding webhook_findFirst_def by (rule find_primary_key [where f = w_id]) auto

lemma primary_key_unique:
  "distinct (map f xs) \<Longrightarrow> x \<in> set xs \<Longrightarrow> y \<in> set xs \<Longrightarrow> f x = f y \<Longrightarrow> x = y"
  by (auto simp: distinct_map dest: inj_onD)

lemma map_replace_by_key:
  assumes "distinct (map f xs)" and "x \<in> set xs"
  shows "map (\<lambda>r. if f r = f x then g r else r) xs = map (\<lambda>r. if r = x then g x else r) xs"
proof (rule map_cong [OF refl])
  fix r assume "r \<in> set xs"
  with assms primary_key_unique [of f xs r x]
  show "(if f r = f x then g r else r) = (if r = x then g x else r)"
    by auto
qed

subsection \<open>The plan limit\<close>

lemma getWebhookLimit_le:
  "getWebhookLimit tm \<le> (if plan tm = FREE then 1 else 3)"
  by (simp add: getWebhookLimit_def PLAN_WEBHOOK_LIMIT_FREE_def PLAN_WEBHOOK_LIMIT_PAID_def)

lemma create_mutation_full:
  "getWebhookLimit (team c) \<le> webhook_count (t_id (team c)) db \<Longrightarrow>
   create_mutation e c inp db =
     (Inl (FORBIDDEN (webhook_count (t_id (team c)) db) (getWebhookLimit (team c))), db)"
  by (simp add: create_mutation_def)

lemma create_mutation_InrD:
  "create_mutation e c inp db = (Inr row, db') \<Longrightarrow>
   webhook_count (t_id (team c)) db < getWebhookLimit (team c)
   \<and> db' = webhook_create row db \<and> w_teamId row = t_id (team c) \<and> w_status row = ACTIVE"
  by (auto simp: create_mutation_def Let_def split: if_splits)

lemma create_input_cases:
  "create_input e inp = Inr inp \<or> create_input e inp = Inl (BAD_REQUEST [])"
  by (simp add: create_input_def)

text \<open>
  One call on its own. Let \<open>N\<close> be 1 for a team on the free plan and 3 for a team on a
  paid plan, and let a team hold the rows of its own whose status is not DELETED. Whenever
  the team already holds \<open>N\<close> or more, \<open>create\<close> fails and returns the store as it
  was; the error is the FORBIDDEN one (the quota error, carrying count and limit) for every
  input that passes the schema, and the schema's own error for the others, which are
  refused before anything is counted. When \<open>create\<close>, with no other request in between
  its count and its insert, returns a row, the team holds at most \<open>N\<close> afterwards.
\<close>

lemma create_alone_respects_plan_limit:
  fixes e :: env and c :: ctx and inp :: CreateInput and db :: store
  defines "N \<equiv> (if plan (team c) = FREE then 1 else 3 :: nat)"
  defines "held \<equiv> (\<lambda>s. length (filter (\<lambda>w. w_teamId w = t_id (team c) \<and> w_status w \<noteq> DELETED)
                                  (webhooks s)))"
  shows "(N \<le> held db \<longrightarrow>
            create e c inp db =
              (Inl (if create_input e inp = Inr inp
                    then FORBIDDEN (held db) (getWebhookLimit (team c))
                    else BAD_REQUEST []), db))
       \<and> (\<forall>row db'. create e c inp db = (Inr row, db') \<longrightarrow> held db' \<le> N)"
proof (intro conjI impI allI)
  have held: "held s = webhook_count (t_id (team c)) s" for s
    by (simp add: held_def webhook_count_def)
  have lim: "getWebhookLimit (team c) \<le> N"
    unfolding N_def by (rule getWebhookLimit_le)
  { assume "N \<le> held db"
    with lim have full: "getWebhookLimit (team c) \<le> webhook_count (t_id (team c)) db"
      by (simp add: held)
    from create_input_cases [of e inp] create_mutation_full [OF full, of e inp]
    show "create e c inp db =
              (Inl (if create_input e inp = Inr inp
                    then FORBIDDEN (held db) (getWebhookLimit (team c))
                    else BAD_REQUEST []), db)"
      by (auto simp: create_def procedure_cases held) }
  { fix row db'
    assume "create e c inp db = (Inr row, db')"
    with create_input_cases [of e inp] have "create_mutation e c inp db = (Inr row, db')"
      by (auto simp: create_def procedure_cases)
    from create_mutation_InrD [OF this]
    have "held db' = Suc (held db)" and "held db < getWebhookLimit (team c)"
      by (simp_all add: held webhook_count_def webhook_create_def)
    with lim show "held db' \<le> N" by simp }
qed

text \<open>
  On the example: the free team holds one live subscription (the DELETED one does not count)
  and is refused; the paying team holds one, is served, and holds two afterwards.
\<close>

lemma create_alone_example:
  "create example_env free_team example_create example_store
     = (Inl (FORBIDDEN 1 1), example_store)
   \<and> (\<exists>row. create example_env paid_team example_create example_store
              = (Inr row, webhook_create row example_store))
   \<and> length (filter (\<lambda>w. w_teamId w = ''team2'' \<and> w_status w \<noteq> DELETED)
        (webhooks (snd (create example_env paid_team example_create example_store)))) = 2"
  using create_alone_respects_plan_limit [of free_team example_store example_env example_create]
        create_alone_respects_plan_limit [of paid_team example_store example_env example_create]
  by (simp add: example_env_def free_team_def paid_team_def example_create_def
      example_store_def hook_def create_def procedure_cases create_input_def
      create_mutation_def eventTypes_schema_def EVENT_TYPES_ENUM_def optional_def
      getWebhookLimit_def webhook_count_def webhook_create_def generateSecret_def
      PLAN_WEBHOOK_LIMIT_FREE_def PLAN_WEBHOOK_LIMIT_PAID_def Let_def)

text \<open>The resolver running alone is the check followed by the insert, on one store.\<close>

lemma create_mutation_steps:
  "create_mutation e c inp db =
     (case create_limit_check c db of
        Some err \<Rightarrow> (Inl err, db)
      | None \<Rightarrow> create_insert e c inp db)"
  by (simp add: create_mutation_def create_limit_check_def create_insert_def Let_def)

text \<open>
  C1. The limit is meant to hold whenever \<open>create\<close> returns a row, and it does not.
  The free team holds no subscription and its limit is 1. Two of its \<open>create\<close>
  requests overlap: both count 0, both pass the check, both insert and both return their
  row. The team then holds two subscriptions that are not DELETED, one more than its
  limit.
\<close>

theorem create_overlapped_exceeds_plan_limit:
  "create_overlapped example_env free_team example_create
       (example_env\<lparr>cuid := ''wh_2''\<rparr>) free_team example_create empty_store
     = (Inr \<lparr>w_id = ''wh_new'', w_teamId = ''team1'', w_url = ''https://example.com/in'',
              w_description = None, w_secret = ''rrrrrrrrrrrrrrrr'',
              w_eventTypes = [''email.sent''], w_status = ACTIVE, w_consecutiveFailures = 0,
              w_createdByUserId = ''user1'', w_createdAt = 1700\<rparr>,
        Inr \<lparr>w_id = ''wh_2'', w_teamId = ''team1'', w_url = ''https://example.com/in'',
              w_description = None, w_secret = ''rrrrrrrrrrrrrrrr'',
              w_eventTypes = [''email.sent''], w_status = ACTIVE, w_consecutiveFailures = 0,
              w_createdByUserId = ''user1'', w_createdAt = 1700\<rparr>,
        \<lparr>webhooks =
           [\<lparr>w_id = ''wh_new'', w_teamId = ''team1'', w_url = ''https://example.com/in'',
             w_description = None, w_secret = ''rrrrrrrrrrrrrrrr'',
             w_eventTypes = [''email.sent''], w_status = ACTIVE, w_consecutiveFailures = 0,
             w_createdByUserId = ''user1'', w_createdAt = 1700\<rparr>,
            \<lparr>w_id = ''wh_2'', w_teamId = ''team1'', w_url = ''https://example.com/in'',
             w_description = None, w_secret = ''rrrrrrrrrrrrrrrr'',
             w_eventTypes = [''email.sent''], w_status = ACTIVE, w_consecutiveFailures = 0,
             w_createdByUserId = ''user1'', w_createdAt = 1700\<rparr>],
         webhookCalls = []\<rparr>)
   \<and> length (filter (\<lambda>w. w_teamId w = t_id (team free_team) \<and> w_status w \<noteq> DELETED)
        (webhooks (snd (snd (create_overlapped example_env free_team example_create
           (example_env\<lparr>cuid := ''wh_2''\<rparr>) free_team example_create empty_store))))) = 2
   \<and> (if plan (team free_team) = FREE then 1 else 3 :: nat) = 1
   \<and> getWebhookLimit (team free_team) = 1"
  by code_simp

subsection \<open>Changing the status\<close>

lemma setStatus_input_cases:
  "setStatus_input inp = (if si_status inp = DELETED
     then Inl (BAD_REQUEST [''Deletion not supported here'']) else Inr inp)"
  by (simp add: setStatus_input_def)

lemma setStatus_mutation_found:
  assumes "webhook_findFirst (si_id inp) (t_id (team c)) db = Some w" and "w_status w \<noteq> DELETED"
  shows "setStatus_mutation c inp db =
     (Inr (w\<lparr>w_status := si_status inp,
              w_consecutiveFailures :=
                (if si_status inp = ACTIVE then 0 else w_consecutiveFailures w)\<rparr>),
      db\<lparr>webhooks := map (\<lambda>r. if w_id r = w_id w
            then r\<lparr>w_status := si_status inp,
                    w_consecutiveFailures :=
                      (if si_status inp = ACTIVE then 0 else w_consecutiveFailures w)\<rparr>
            else r) (webhooks db)\<rparr>)"
  using assms by (simp add: setStatus_mutation_def webhook_update_def Let_def)

lemma setStatus_mutation_missing:
  assumes "webhook_findFirst (si_id inp) (t_id (team c)) db = None
         \<or> (\<exists>w. webhook_findFirst (si_id inp) (t_id (team c)) db = Some w \<and> w_status w = DELETED)"
  shows "setStatus_mutation c inp db = (Inl (NOT_FOUND ''Webhook not found''), db)"
  using assms by (auto simp: setStatus_mutation_def)

text \<open>
  C2. Let \<open>w\<close> be a stored subscription of the calling team that is not DELETED (ids being
  the primary key of the table). Then \<open>setStatus\<close> with target ACTIVE succeeds, returns
  \<open>w\<close> with status ACTIVE and \<open>consecutiveFailures\<close> 0, and the store it leaves differs from
  the old one in that row only. If \<open>w\<close> was ACTIVE already, the new row is \<open>w\<close> with
  nothing but the counter reset.
\<close>

theorem setStatus_ACTIVE_resets_failures:
  assumes pk: "distinct (map w_id (webhooks db))"
    and w: "w \<in> set (webhooks db)"
    and team: "w_teamId w = t_id (team c)"
    and live: "w_status w \<noteq> DELETED"
  shows "setStatus c \<lparr>si_id = w_id w, si_status = ACTIVE\<rparr> db =
           (Inr (w\<lparr>w_status := ACTIVE, w_consecutiveFailures := 0\<rparr>),
            db\<lparr>webhooks := map (\<lambda>r. if r = w then w\<lparr>w_status := ACTIVE, w_consecutiveFailures := 0\<rparr>
                                    else r) (webhooks db)\<rparr>)
       \<and> (w_status w = ACTIVE \<longrightarrow>
            w\<lparr>w_status := ACTIVE, w_consecutiveFailures := 0\<rparr> = w\<lparr>w_consecutiveFailures := 0\<rparr>)"
proof
  let ?inp = "\<lparr>si_id = w_id w, si_status = ACTIVE\<rparr>"
  from webhook_findFirst_primary_key [OF pk w] team
  have found: "webhook_findFirst (si_id ?inp) (t_id (team c)) db = Some w"
    by simp
  have swap: "map (\<lambda>r. if w_id r = w_id w then r\<lparr>w_status := ACTIVE, w_consecutiveFailures := 0\<rparr> else r)
          (webhooks db)
      = map (\<lambda>r. if r = w then w\<lparr>w_status := ACTIVE, w_consecutiveFailures := 0\<rparr> else r)
          (webhooks db)"
    by (rule map_replace_by_key [OF pk w])
  from setStatus_mutation_found [OF found live]
  have "setStatus_mutation c ?inp db =
          (Inr (w\<lparr>w_status := ACTIVE, w_consecutiveFailures := 0\<rparr>),
           db\<lparr>webhooks := map (\<lambda>r. if w_id r = w_id w
                                   then r\<lparr>w_status := ACTIVE, w_consecutiveFailures := 0\<rparr> else r)
                              (webhooks db)\<rparr>)"
    by simp
  then have "setStatus_mutation c ?inp db =
          (Inr (w\<lparr>w_status := ACTIVE, w_consecutiveFailures := 0\<rparr>),
           db\<lparr>webhooks := map (\<lambda>r. if r = w
                                   then w\<lparr>w_status := ACTIVE, w_consecutiveFailures := 0\<rparr> else r)
                              (webhooks db)\<rparr>)"
    by (simp only: swap)
  then show "setStatus c ?inp db =
           (Inr (w\<lparr>w_status := ACTIVE, w_consecutiveFailures := 0\<rparr>),
            db\<lparr>webhooks := map (\<lambda>r. if r = w then w\<lparr>w_status := ACTIVE, w_consecutiveFailures := 0\<rparr>
                                    else r) (webhooks db)\<rparr>)"
    by (simp only: setStatus_def procedure_cases setStatus_input_cases)
      (simp del: map_eq_conv)
  show "w_status w = ACTIVE \<longrightarrow>
            w\<lparr>w_status := ACTIVE, w_consecutiveFailures := 0\<rparr> = w\<lparr>w_consecutiveFailures := 0\<rparr>"
    by auto
qed

text \<open>
  On the example: the paused subscription with four failures comes back ACTIVE with none,
  and the ACTIVE one with two failures keeps everything but the counter.
\<close>

theorem setStatus_ACTIVE_resets_failures_witness:
  "setStatus free_team \<lparr>si_id = ''wh_b'', si_status = ACTIVE\<rparr> example_store =
     (Inr (hook ''wh_b'' ''team1'' ACTIVE 0),
      example_store\<lparr>webhooks := [hook ''wh_a'' ''team1'' DELETED 0,
                                  hook ''wh_b'' ''team1'' ACTIVE 0,
                                  hook ''wh_c'' ''team2'' ACTIVE 2]\<rparr>)
   \<and> setStatus paid_team \<lparr>si_id = ''wh_c'', si_status = ACTIVE\<rparr> example_store =
     (Inr ((hook ''wh_c'' ''team2'' ACTIVE 2)\<lparr>w_consecutiveFailures := 0\<rparr>),
      example_store\<lparr>webhooks := [hook ''wh_a'' ''team1'' DELETED 0,
                                  hook ''wh_b'' ''team1'' PAUSED 4,
                                  hook ''wh_c'' ''team2'' ACTIVE 0]\<rparr>)"
  using setStatus_ACTIVE_resets_failures
          [of example_store "hook ''wh_b'' ''team1'' PAUSED 4" free_team]
        setStatus_ACTIVE_resets_failures
          [of example_store "hook ''wh_c'' ''team2'' ACTIVE 2" paid_team]
  by (simp add: example_store_def hook_def free_team_def paid_team_def)

text \<open>
  C4. Whatever the id, the caller and the store, \<open>setStatus\<close> with target DELETED fails on
  the schema's own check ("Deletion not supported here"), before any row is looked up, and
  leaves the store as it was.
\<close>

theorem setStatus_DELETED_rejected:
  "setStatus c \<lparr>si_id = i, si_status = DELETED\<rparr> db
     = (Inl (BAD_REQUEST [''Deletion not supported here'']), db)"
  by (simp add: setStatus_def procedure_cases setStatus_input_cases)

subsection \<open>What the three mutations can do to a row\<close>

lemma update_input_cases:
  "update_input e inp = Inr inp \<or> update_input e inp = Inl (BAD_REQUEST [])"
  by (simp add: update_input_def)

lemma update_mutation_missing:
  assumes "webhook_findFirst (ui_id inp) (t_id (team c)) db = None
         \<or> (\<exists>w. webhook_findFirst (ui_id inp) (t_id (team c)) db = Some w \<and> w_status w = DELETED)"
  shows "update_mutation e c inp db = (Inl (NOT_FOUND ''Webhook not found''), db)"
  using assms by (auto simp: update_mutation_def)

lemma update_mutation_InrD:
  assumes "update_mutation e c inp db = (Inr row, db')"
  shows "\<exists>w secret. webhook_findFirst (ui_id inp) (t_id (team c)) db = Some w
           \<and> w_status w \<noteq> DELETED
           \<and> secret = (if ui_rotateSecret inp = Some True then generateSecret e
                       else case ui_secret inp of Some s \<Rightarrow> s | None \<Rightarrow> w_secret w)
           \<and> row = w\<lparr>w_url := w_url row, w_description := w_description row,
                      w_eventTypes := w_eventTypes row, w_secret := secret\<rparr>
           \<and> webhooks db' = map (\<lambda>r. if w_id r = w_id w
                   then r\<lparr>w_url := w_url row, w_description := w_description row,
                           w_eventTypes := w_eventTypes row, w_secret := secret\<rparr>
                   else r) (webhooks db)
           \<and> webhookCalls db' = webhookCalls db"
  using assms
  by (auto simp: update_mutation_def webhook_update_def Let_def
           split: option.splits if_splits)

lemma update_InrD:
  assumes "update e c inp db = (Inr row, db')"
  shows "update_input e inp = Inr inp \<and> update_mutation e c inp db = (Inr row, db')"
  using assms update_input_cases [of e inp] by (auto simp: update_def procedure_cases)

lemma update_outcome:
  "update e c inp db = (Inl (BAD_REQUEST []), db)
   \<or> update e c inp db = (Inl (NOT_FOUND ''Webhook not found''), db)
   \<or> (\<exists>row db'. update e c inp db = (Inr row, db'))"
  using update_input_cases [of e inp]
  by (auto simp: update_def procedure_cases update_mutation_def Let_def split: option.splits)

lemma setStatus_outcome:
  "(si_status inp = DELETED
      \<and> setStatus c inp db = (Inl (BAD_REQUEST [''Deletion not supported here'']), db))
   \<or> (si_status inp \<noteq> DELETED
      \<and> (webhook_findFirst (si_id inp) (t_id (team c)) db = None
         \<or> (\<exists>w. webhook_findFirst (si_id inp) (t_id (team c)) db = Some w \<and> w_status w = DELETED))
      \<and> setStatus c inp db = (Inl (NOT_FOUND ''Webhook not found''), db))
   \<or> (\<exists>w. webhook_findFirst (si_id inp) (t_id (team c)) db = Some w \<and> w_status w \<noteq> DELETED
          \<and> si_status inp \<noteq> DELETED
          \<and> setStatus c inp db = setStatus_mutation c inp db)"
  by (auto simp: setStatus_def procedure_cases setStatus_input_cases setStatus_mutation_def
           split: option.splits)




subsection \<open>Rows that are not there\<close>

lemma getCall_cases:
  "getCall c i db = (case webhookCall_findFirst i (t_id (team c)) db of
        None \<Rightarrow> (Inl (NOT_FOUND ''Webhook call not found''), db)
      | Some x \<Rightarrow> (Inr x, db))"
  by (simp add: getCall_def procedure_cases getCall_query_def)

lemma webhook_findFirst_hidden:
  assumes "\<forall>w \<in> set (webhooks db). w_id w = i \<longrightarrow> w_teamId w \<noteq> t \<or> w_status w = DELETED"
  shows "webhook_findFirst i t db = None
       \<or> (\<exists>w. webhook_findFirst i t db = Some w \<and> w_status w = DELETED)"
proof (cases "webhook_findFirst i t db")
  case None
  then show ?thesis by simp
next
  case (Some w)
  from webhook_findFirst_SomeD [OF Some] assms have "w_status w = DELETED" by auto
  with Some show ?thesis by simp
qed

text \<open>
  C5. If every subscription with the given id belongs to another team or is DELETED (in
  particular if there is none), then \<open>update\<close> and \<open>setStatus\<close> fail and return the
  store as it was; the error is NOT_FOUND ("Webhook not found") for every input that
  passes the schema of the procedure, and the schema's own error for the others, which
  are refused before the row is looked up. If every call record with the given id belongs
  to another team (in particular if there is none), \<open>getCall\<close> fails with NOT_FOUND
  ("Webhook call not found") and returns the store as it was.
\<close>

theorem absent_rows_are_NOT_FOUND:
  "((\<forall>w \<in> set (webhooks db). w_id w = ui_id ui \<longrightarrow>
        w_teamId w \<noteq> t_id (team c) \<or> w_status w = DELETED)
      \<longrightarrow> update e c ui db =
            (Inl (if update_input e ui = Inr ui then NOT_FOUND ''Webhook not found''
                  else BAD_REQUEST []), db))
   \<and> ((\<forall>w \<in> set (webhooks db). w_id w = si_id si \<longrightarrow>
        w_teamId w \<noteq> t_id (team c) \<or> w_status w = DELETED)
      \<longrightarrow> setStatus c si db =
            (Inl (if si_status si \<noteq> DELETED then NOT_FOUND ''Webhook not found''
                  else BAD_REQUEST [''Deletion not supported here'']), db))
   \<and> ((\<forall>x \<in> set (webhookCalls db). c_id x = i \<longrightarrow> c_teamId x \<noteq> t_id (team c))
      \<longrightarrow> getCall c i db = (Inl (NOT_FOUND ''Webhook call not found''), db))"
proof (intro conjI impI)
  assume hid: "\<forall>w \<in> set (webhooks db). w_id w = ui_id ui \<longrightarrow>
             w_teamId w \<noteq> t_id (team c) \<or> w_status w = DELETED"
  show "update e c ui db =
            (Inl (if update_input e ui = Inr ui then NOT_FOUND ''Webhook not found''
                  else BAD_REQUEST []), db)"
  proof (cases "update_input e ui = Inr ui")
    case True
    with update_mutation_missing [OF webhook_findFirst_hidden [OF hid]] show ?thesis
      by (simp add: update_def procedure_cases)
  next
    case False
    with update_input_cases [of e ui] show ?thesis
      by (auto simp: update_def procedure_cases)
  qed
next
  assume hid: "\<forall>w \<in> set (webhooks db). w_id w = si_id si \<longrightarrow>
             w_teamId w \<noteq> t_id (team c) \<or> w_status w = DELETED"
  from setStatus_mutation_missing [OF webhook_findFirst_hidden [OF hid]]
  show "setStatus c si db =
            (Inl (if si_status si \<noteq> DELETED then NOT_FOUND ''Webhook not found''
                  else BAD_REQUEST [''Deletion not supported here'']), db)"
    by (simp add: setStatus_def procedure_cases setStatus_input_cases)
next
  assume hid: "\<forall>x \<in> set (webhookCalls db). c_id x = i \<longrightarrow> c_teamId x \<noteq> t_id (team c)"
  have "webhookCall_findFirst i (t_id (team c)) db = None"
    unfolding webhookCall_findFirst_def find_None_iff using hid by auto
  then show "getCall c i db = (Inl (NOT_FOUND ''Webhook call not found''), db)"
    by (simp add: getCall_cases)
qed

text \<open>
  On the example, for the free team: an id nobody has, the paying team's subscription and
  the team's own DELETED subscription are all not found; so are the paying team's call
  record and a call id nobody has.
\<close>

theorem absent_rows_are_NOT_FOUND_witness:
  "update example_env free_team (example_update\<lparr>ui_id := ''wh_zz''\<rparr>) example_store
     = (Inl (NOT_FOUND ''Webhook not found''), example_store)
   \<and> update example_env free_team (example_update\<lparr>ui_id := ''wh_c''\<rparr>) example_store
     = (Inl (NOT_FOUND ''Webhook not found''), example_store)
   \<and> update example_env free_team (example_update\<lparr>ui_id := ''wh_a''\<rparr>) example_store
     = (Inl (NOT_FOUND ''Webhook not found''), example_store)
   \<and> setStatus free_team \<lparr>si_id = ''wh_a'', si_status = ACTIVE\<rparr> example_store
     = (Inl (NOT_FOUND ''Webhook not found''), example_store)
   \<and> setStatus free_team \<lparr>si_id = ''wh_c'', si_status = PAUSED\<rparr> example_store
     = (Inl (NOT_FOUND ''Webhook not found''), example_store)
   \<and> getCall free_team ''c3'' example_store
     = (Inl (NOT_FOUND ''Webhook call not found''), example_store)
   \<and> getCall free_team ''c9'' example_store
     = (Inl (NOT_FOUND ''Webhook call not found''), example_store)"
  using absent_rows_are_NOT_FOUND
          [where e = example_env and c = free_team and db = example_store
             and ui = "example_update\<lparr>ui_id := ''wh_zz''\<rparr>"
             and si = "\<lparr>si_id = ''wh_a'', si_status = ACTIVE\<rparr>" and i = "''c3''"]
        absent_rows_are_NOT_FOUND
          [where e = example_env and c = free_team and db = example_store
             and ui = "example_update\<lparr>ui_id := ''wh_c''\<rparr>"
             and si = "\<lparr>si_id = ''wh_c'', si_status = PAUSED\<rparr>" and i = "''c9''"]
        absent_rows_are_NOT_FOUND
          [where e = example_env and c = free_team and db = example_store
             and ui = "example_update\<lparr>ui_id := ''wh_a''\<rparr>"]
  by (simp add: example_env_def free_team_def example_store_def example_update_def hook_def
      delivery_def update_input_def optional_def eventTypes_schema_def EVENT_TYPES_ENUM_def)

subsection \<open>update: the secret and the frame\<close>


lemma example_update_runs:
  "\<exists>row db'. update example_env free_team example_update example_store = (Inr row, db')"
  by (simp add: example_env_def free_team_def example_store_def example_update_def hook_def
      update_def procedure_cases update_input_def optional_def eventTypes_schema_def
      EVENT_TYPES_ENUM_def update_mutation_def webhook_findFirst_def Let_def)



text \<open>
  C10. When \<open>update\<close> succeeds, the row it returns is the row it found with at most
  \<open>url\<close>, \<open>description\<close>, \<open>eventTypes\<close> and \<open>secret\<close> replaced: \<open>status\<close>,
  \<open>consecutiveFailures\<close>, \<open>teamId\<close> and \<open>createdByUserId\<close> are those of the old row.
  The same holds for every row of the table, which keeps its length, and the call records
  are untouched.
\<close>

theorem update_frame:
  assumes "update e c inp db = (Inr row, db')"
  shows "(\<exists>w. webhook_findFirst (ui_id inp) (t_id (team c)) db = Some w
            \<and> row = w\<lparr>w_url := w_url row, w_description := w_description row,
                       w_eventTypes := w_eventTypes row, w_secret := w_secret row\<rparr>
            \<and> w_status row = w_status w
            \<and> w_consecutiveFailures row = w_consecutiveFailures w
            \<and> w_teamId row = w_teamId w
            \<and> w_createdByUserId row = w_createdByUserId w)
       \<and> length (webhooks db') = length (webhooks db)
       \<and> (\<forall>k < length (webhooks db).
            webhooks db' ! k =
              (webhooks db ! k)\<lparr>w_url := w_url (webhooks db' ! k),
                                w_description := w_description (webhooks db' ! k),
                                w_eventTypes := w_eventTypes (webhooks db' ! k),
                                w_secret := w_secret (webhooks db' ! k)\<rparr>
            \<and> w_status (webhooks db' ! k) = w_status (webhooks db ! k)
            \<and> w_consecutiveFailures (webhooks db' ! k) = w_consecutiveFailures (webhooks db ! k)
            \<and> w_teamId (webhooks db' ! k) = w_teamId (webhooks db ! k)
            \<and> w_createdByUserId (webhooks db' ! k) = w_createdByUserId (webhooks db ! k))
       \<and> webhookCalls db' = webhookCalls db"
proof -
  from update_InrD [OF assms] have "update_mutation e c inp db = (Inr row, db')"
    by simp
  from update_mutation_InrD [OF this]
  obtain w secret where found: "webhook_findFirst (ui_id inp) (t_id (team c)) db = Some w"
    and row: "row = w\<lparr>w_url := w_url row, w_description := w_description row,
                      w_eventTypes := w_eventTypes row, w_secret := secret\<rparr>"
    and rows: "webhooks db' = map (\<lambda>r. if w_id r = w_id w
                   then r\<lparr>w_url := w_url row, w_description := w_description row,
                           w_eventTypes := w_eventTypes row, w_secret := secret\<rparr>
                   else r) (webhooks db)"
    and calls: "webhookCalls db' = webhookCalls db"
    by blast
  have fields: "w_status row = w_status w \<and> w_consecutiveFailures row = w_consecutiveFailures w
      \<and> w_teamId row = w_teamId w \<and> w_createdByUserId row = w_createdByUserId w
      \<and> w_secret row = secret"
    by (subst (1 2 3 4 5) row) simp
  with row have "row = w\<lparr>w_url := w_url row, w_description := w_description row,
                       w_eventTypes := w_eventTypes row, w_secret := w_secret row\<rparr>"
    by simp
  with found fields have first: "\<exists>w. webhook_findFirst (ui_id inp) (t_id (team c)) db = Some w
            \<and> row = w\<lparr>w_url := w_url row, w_description := w_description row,
                       w_eventTypes := w_eventTypes row, w_secret := w_secret row\<rparr>
            \<and> w_status row = w_status w
            \<and> w_consecutiveFailures row = w_consecutiveFailures w
            \<and> w_teamId row = w_teamId w
            \<and> w_createdByUserId row = w_createdByUserId w"
    by blast
  from rows have len: "length (webhooks db') = length (webhooks db)"
    by simp
  from rows have each: "\<forall>k < length (webhooks db).
            webhooks db' ! k =
              (webhooks db ! k)\<lparr>w_url := w_url (webhooks db' ! k),
                                w_description := w_description (webhooks db' ! k),
                                w_eventTypes := w_eventTypes (webhooks db' ! k),
                                w_secret := w_secret (webhooks db' ! k)\<rparr>
            \<and> w_status (webhooks db' ! k) = w_status (webhooks db ! k)
            \<and> w_consecutiveFailures (webhooks db' ! k) = w_consecutiveFailures (webhooks db ! k)
            \<and> w_teamId (webhooks db' ! k) = w_teamId (webhooks db ! k)
            \<and> w_createdByUserId (webhooks db' ! k) = w_createdByUserId (webhooks db ! k)"
    by simp
  from first len each calls show ?thesis by blast
qed

text \<open>
  On the example: the update replaces the event types of the paused subscription and
  leaves status, counter, team and creator of every row alone.
\<close>

theorem update_frame_witness:
  "\<exists>row db'. update example_env free_team example_update example_store = (Inr row, db')
     \<and> w_status row = PAUSED \<and> w_consecutiveFailures row = 4
     \<and> w_teamId row = ''team1'' \<and> w_createdByUserId row = ''user1''
     \<and> w_eventTypes row = [''email.bounced'']
     \<and> w_status (webhooks db' ! 1) = PAUSED \<and> w_consecutiveFailures (webhooks db' ! 1) = 4
     \<and> w_status (webhooks db' ! 2) = ACTIVE \<and> w_consecutiveFailures (webhooks db' ! 2) = 2"
proof -
  from example_update_runs obtain row db'
    where run: "update example_env free_team example_update example_store = (Inr row, db')"
    by blast
  have found: "webhook_findFirst (ui_id example_update) (t_id (team free_team)) example_store
          = Some (hook ''wh_b'' ''team1'' PAUSED 4)"
    by (simp add: webhook_findFirst_def example_store_def example_update_def free_team_def
        hook_def)
  note frame = update_frame [OF run]
  from frame found have row: "w_status row = PAUSED \<and> w_consecutiveFailures row = 4
     \<and> w_teamId row = ''team1'' \<and> w_createdByUserId row = ''user1''"
    by (auto simp: hook_def)
  from frame have "\<forall>k<3. w_status (webhooks db' ! k) = w_status (webhooks example_store ! k)
        \<and> w_consecutiveFailures (webhooks db' ! k)
            = w_consecutiveFailures (webhooks example_store ! k)"
    by (simp add: example_store_def)
  then have rows: "w_status (webhooks db' ! 1) = PAUSED \<and> w_consecutiveFailures (webhooks db' ! 1) = 4
     \<and> w_status (webhooks db' ! 2) = ACTIVE \<and> w_consecutiveFailures (webhooks db' ! 2) = 2"
    by (simp add: example_store_def hook_def)
  from run have "w_eventTypes row = [''email.bounced'']"
    by (auto simp: example_env_def free_team_def example_store_def example_update_def hook_def
      update_def procedure_cases update_input_def optional_def eventTypes_schema_def
      EVENT_TYPES_ENUM_def update_mutation_def webhook_findFirst_def Let_def)
  with run row rows show ?thesis by blast
qed

subsection \<open>Listing the call records\<close>

lemma length_positioned:
  "length (case cur of None \<Rightarrow> xs | Some i \<Rightarrow> dropWhile (P i) xs) \<le> length xs"
  by (cases cur) (simp_all add: length_dropWhile_le)

lemma webhookCall_findMany_unlimited:
  "webhookCall_findMany t wid st (length (webhookCalls db)) cur db =
     (case cur of
        None \<Rightarrow> sort_key (\<lambda>c. - c_createdAt c) (filter (webhookCall_where t wid st) (webhookCalls db))
      | Some i \<Rightarrow> dropWhile (\<lambda>c. c_id c \<noteq> i)
          (sort_key (\<lambda>c. - c_createdAt c) (filter (webhookCall_where t wid st) (webhookCalls db))))"
proof -
  let ?ordered = "sort_key (\<lambda>c. - c_createdAt c) (filter (webhookCall_where t wid st) (webhookCalls db))"
  let ?positioned = "case cur of None \<Rightarrow> ?ordered
                        | Some i \<Rightarrow> dropWhile (\<lambda>c. c_id c \<noteq> i) ?ordered"
  have "length ?positioned \<le> length ?ordered"
    by (rule length_positioned)
  also have "\<dots> \<le> length (webhookCalls db)"
    by simp
  finally have "take (length (webhookCalls db)) ?positioned = ?positioned"
    by simp
  then show ?thesis
    by (simp add: webhookCall_findMany_def Let_def)
qed

lemma webhookCall_findMany_take:
  "webhookCall_findMany t wid st n cur db =
     take n (webhookCall_findMany t wid st (length (webhookCalls db)) cur db)"
  unfolding webhookCall_findMany_unlimited
  by (simp add: webhookCall_findMany_def Let_def)

lemma webhookCall_findMany_sorted:
  "sorted_wrt (\<lambda>a b. c_createdAt a \<ge> c_createdAt b)
     (webhookCall_findMany t wid st (length (webhookCalls db)) cur db)"
proof -
  let ?ordered = "sort_key (\<lambda>c. - c_createdAt c) (filter (webhookCall_where t wid st) (webhookCalls db))"
  have "sorted (map (\<lambda>c. - c_createdAt c) ?ordered)"
    by (rule sorted_sort_key)
  then have "sorted_wrt (\<lambda>a b. c_createdAt a \<ge> c_createdAt b) ?ordered"
    by (simp add: sorted_wrt_map)
  then show ?thesis
    unfolding webhookCall_findMany_unlimited by (cases cur) simp_all
qed

lemma webhookCall_findMany_matching:
  "set (webhookCall_findMany t wid st (length (webhookCalls db)) cur db)
     \<subseteq> {x \<in> set (webhookCalls db). webhookCall_where t wid st x}"
  unfolding webhookCall_findMany_unlimited
  by (cases cur) (auto dest: set_dropWhileD)

lemma webhookCall_findMany_complete:
  "mset (webhookCall_findMany t wid st (length (webhookCalls db)) None db)
     = mset (filter (webhookCall_where t wid st) (webhookCalls db))"
  unfolding webhookCall_findMany_unlimited by simp

lemma webhookCall_findMany_cursor:
  "webhookCall_findMany t wid st (length (webhookCalls db)) (Some i) db
     = dropWhile (\<lambda>c. c_id c \<noteq> i)
         (webhookCall_findMany t wid st (length (webhookCalls db)) None db)"
  unfolding webhookCall_findMany_unlimited by simp

lemma listCalls_query_page:
  fixes c inp db
  defines "rest \<equiv> webhookCall_findMany (t_id (team c)) (lc_webhookId inp) (lc_status inp)
                     (length (webhookCalls db))
                     (case lc_cursor inp of None \<Rightarrow> None
                      | Some s \<Rightarrow> if s = [] then None else Some s) db"
  assumes limit: "1 \<le> lc_limit inp"
  shows "listCalls_query c inp db =
           (Inr \<lparr>items = take (nat (lc_limit inp)) rest,
                 nextCursor = (if nat (lc_limit inp) < length rest
                               then Some (c_id (rest ! nat (lc_limit inp))) else None)\<rparr>, db)"
proof -
  let ?L = "nat (lc_limit inp)"
  let ?calls = "webhookCall_findMany (t_id (team c)) (lc_webhookId inp) (lc_status inp)
                    (nat (lc_limit inp + 1))
                    (case lc_cursor inp of None \<Rightarrow> None
                     | Some s \<Rightarrow> if s = [] then None else Some s)
                    db"
  from limit have suc: "nat (lc_limit inp + 1) = Suc ?L"
    by simp
  have calls: "?calls = take (Suc ?L) rest"
    unfolding rest_def suc by (rule webhookCall_findMany_take)
  show ?thesis
  proof (cases "?L < length rest")
    case True
    then have split: "take (Suc ?L) rest = take ?L rest @ [rest ! ?L]"
      by (rule take_Suc_conv_app_nth)
    from True limit have "int (length ?calls) > lc_limit inp"
      unfolding calls by simp
    moreover have "butlast ?calls = take ?L rest" "last ?calls = rest ! ?L" "?calls \<noteq> []"
      unfolding calls split by simp_all
    ultimately show ?thesis
      using True unfolding listCalls_query_def Let_def by simp
  next
    case False
    then have "take (Suc ?L) rest = rest" "take ?L rest = rest"
      by simp_all
    moreover from False limit have "\<not> int (length ?calls) > lc_limit inp"
      unfolding calls by simp
    ultimately show ?thesis
      using False unfolding listCalls_query_def Let_def calls by simp
  qed
qed

lemma webhookCall_where_iff:
  "webhookCall_where t wid st =
     (\<lambda>x. c_teamId x = t \<and> (\<forall>i. wid = Some i \<longrightarrow> c_webhookId x = i)
                         \<and> (\<forall>s. st = Some s \<longrightarrow> c_status x = s))"
  by (auto simp: webhookCall_where_def fun_eq_iff split: option.splits)

lemma listCalls_input_cases:
  "listCalls_input inp =
     (let limit = (case lci_limit inp of None \<Rightarrow> 20 | Some n \<Rightarrow> n)
      in if limit < 1 \<or> 50 < limit then Inl (BAD_REQUEST [])
         else Inr \<lparr>lc_webhookId = lci_webhookId inp, lc_status = lci_status inp,
                   lc_limit = limit, lc_cursor = lci_cursor inp\<rparr>)"
  by (auto simp: listCalls_input_def Let_def)

text \<open>
  C6. Let \<open>limit\<close> be the requested page size, 20 when it is omitted, and let \<open>rest\<close> be
  what \<open>findMany\<close> yields when nothing is cut off: the call records of the team that pass
  the optional \<open>webhookId\<close> and \<open>status\<close> filters, newest first, all of them when there
  is no cursor and from the cursor row on otherwise. A \<open>limit\<close> outside 1..50 is refused by
  the schema. For a \<open>limit\<close> within 1..50, \<open>listCalls\<close> succeeds without touching the
  store; its items are the first \<open>limit\<close> records of \<open>rest\<close>, hence at most \<open>limit\<close>
  many, all of the team and passing the filters, ordered by \<open>createdAt\<close> descending; and
  \<open>nextCursor\<close> is the id of the first record of \<open>rest\<close> left out of the page when
  \<open>rest\<close> has more than \<open>limit\<close> records, and absent otherwise.
\<close>

theorem listCalls_page:
  fixes c :: ctx and inp :: ListCallsInput and db :: store
  defines "limit \<equiv> (case lci_limit inp of None \<Rightarrow> 20 | Some n \<Rightarrow> n)"
  defines "cur \<equiv> (case lci_cursor inp of None \<Rightarrow> None
                   | Some s \<Rightarrow> if s = [] then None else Some s)"
  defines "rest \<equiv> webhookCall_findMany (t_id (team c)) (lci_webhookId inp) (lci_status inp)
                     (length (webhookCalls db)) cur db"
  shows "(limit < 1 \<or> 50 < limit \<longrightarrow> listCalls c inp db = (Inl (BAD_REQUEST []), db))
       \<and> (1 \<le> limit \<and> limit \<le> 50 \<longrightarrow>
            (\<exists>page. listCalls c inp db = (Inr page, db)
               \<and> items page = take (nat limit) rest
               \<and> int (length (items page)) \<le> limit
               \<and> (\<forall>x \<in> set (items page).
                     x \<in> set (webhookCalls db) \<and> c_teamId x = t_id (team c)
                     \<and> (\<forall>i. lci_webhookId inp = Some i \<longrightarrow> c_webhookId x = i)
                     \<and> (\<forall>s. lci_status inp = Some s \<longrightarrow> c_status x = s))
               \<and> sorted_wrt (\<lambda>a b. c_createdAt a \<ge> c_createdAt b) (items page)
               \<and> nextCursor page = (if nat limit < length rest
                                    then Some (c_id (rest ! nat limit)) else None)))
       \<and> sorted_wrt (\<lambda>a b. c_createdAt a \<ge> c_createdAt b) rest
       \<and> (cur = None \<longrightarrow>
            mset rest = mset (filter (\<lambda>x. c_teamId x = t_id (team c)
                                \<and> (\<forall>i. lci_webhookId inp = Some i \<longrightarrow> c_webhookId x = i)
                                \<and> (\<forall>s. lci_status inp = Some s \<longrightarrow> c_status x = s))
                              (webhookCalls db)))
       \<and> (\<forall>i. cur = Some i \<longrightarrow>
            rest = dropWhile (\<lambda>x. c_id x \<noteq> i)
                     (webhookCall_findMany (t_id (team c)) (lci_webhookId inp) (lci_status inp)
                        (length (webhookCalls db)) None db))"
proof (intro conjI impI allI)
  assume "limit < 1 \<or> 50 < limit"
  then show "listCalls c inp db = (Inl (BAD_REQUEST []), db)"
    by (simp add: listCalls_def procedure_cases listCalls_input_cases limit_def Let_def)
next
  show sorted: "sorted_wrt (\<lambda>a b. c_createdAt a \<ge> c_createdAt b) rest"
    unfolding rest_def by (rule webhookCall_findMany_sorted)
  have matching: "set rest \<subseteq> {x \<in> set (webhookCalls db).
      webhookCall_where (t_id (team c)) (lci_webhookId inp) (lci_status inp) x}"
    unfolding rest_def by (rule webhookCall_findMany_matching)
  assume valid: "1 \<le> limit \<and> limit \<le> 50"
  let ?parsed = "\<lparr>lc_webhookId = lci_webhookId inp, lc_status = lci_status inp,
                   lc_limit = limit, lc_cursor = lci_cursor inp\<rparr>"
  let ?page = "\<lparr>items = take (nat limit) rest,
                 nextCursor = (if nat limit < length rest
                               then Some (c_id (rest ! nat limit)) else None)\<rparr>"
  from valid have "listCalls c inp db = listCalls_query c ?parsed db"
    by (simp add: listCalls_def procedure_cases listCalls_input_cases limit_def Let_def)
  also from valid have "\<dots> = (Inr ?page, db)"
    using listCalls_query_page [of ?parsed c db] by (simp add: rest_def cur_def)
  finally have run: "listCalls c inp db = (Inr ?page, db)" .
  have "length (take (nat limit) rest) \<le> nat limit"
    by simp
  with valid have len: "int (length (items ?page)) \<le> limit"
    by (simp del: length_take) linarith
  have "set (items ?page) \<subseteq> set rest"
    by (simp add: set_take_subset)
  with matching have each: "\<forall>x \<in> set (items ?page).
                     x \<in> set (webhookCalls db) \<and> c_teamId x = t_id (team c)
                     \<and> (\<forall>i. lci_webhookId inp = Some i \<longrightarrow> c_webhookId x = i)
                     \<and> (\<forall>s. lci_status inp = Some s \<longrightarrow> c_status x = s)"
    unfolding webhookCall_where_iff by blast
  from sorted have ord: "sorted_wrt (\<lambda>a b. c_createdAt a \<ge> c_createdAt b) (items ?page)"
    by simp
  from run len each ord
  show "\<exists>page. listCalls c inp db = (Inr page, db)
               \<and> items page = take (nat limit) rest
               \<and> int (length (items page)) \<le> limit
               \<and> (\<forall>x \<in> set (items page).
                     x \<in> set (webhookCalls db) \<and> c_teamId x = t_id (team c)
                     \<and> (\<forall>i. lci_webhookId inp = Some i \<longrightarrow> c_webhookId x = i)
                     \<and> (\<forall>s. lci_status inp = Some s \<longrightarrow> c_status x = s))
               \<and> sorted_wrt (\<lambda>a b. c_createdAt a \<ge> c_createdAt b) (items page)
               \<and> nextCursor page = (if nat limit < length rest
                                    then Some (c_id (rest ! nat limit)) else None)"
    by (intro exI [of _ ?page]) simp
next
  assume "cur = None"
  then show "mset rest = mset (filter (\<lambda>x. c_teamId x = t_id (team c)
                                \<and> (\<forall>i. lci_webhookId inp = Some i \<longrightarrow> c_webhookId x = i)
                                \<and> (\<forall>s. lci_status inp = Some s \<longrightarrow> c_status x = s))
                              (webhookCalls db))"
    unfolding rest_def using webhookCall_findMany_complete
      [of "t_id (team c)" "lci_webhookId inp" "lci_status inp" db]
    by (simp add: webhookCall_where_iff)
next
  fix i assume "cur = Some i"
  then show "rest = dropWhile (\<lambda>x. c_id x \<noteq> i)
                     (webhookCall_findMany (t_id (team c)) (lci_webhookId inp) (lci_status inp)
                        (length (webhookCalls db)) None db)"
    unfolding rest_def by (simp add: webhookCall_findMany_cursor)
qed

text \<open>
  On the example, for the free team with a page size of two: the first page holds the two
  newest records and points at the third; the page from that cursor holds the remaining
  two and has no successor; with the default size and the FAILED filter both failed
  records fit; a page size of 51 is refused.
\<close>

theorem listCalls_page_witness:
  "listCalls free_team example_listCalls example_store
     = (Inr \<lparr>items = [delivery ''c5'' ''team1'' ''wh_a'' SUCCESS 40,
                      delivery ''c2'' ''team1'' ''wh_b'' FAILED 30],
             nextCursor = Some ''c4''\<rparr>, example_store)
   \<and> listCalls free_team (example_listCalls\<lparr>lci_cursor := Some ''c4''\<rparr>) example_store
     = (Inr \<lparr>items = [delivery ''c4'' ''team1'' ''wh_b'' FAILED 20,
                      delivery ''c1'' ''team1'' ''wh_b'' SUCCESS 10],
             nextCursor = None\<rparr>, example_store)
   \<and> listCalls free_team (example_listCalls\<lparr>lci_limit := None, lci_status := Some FAILED\<rparr>)
        example_store
     = (Inr \<lparr>items = [delivery ''c2'' ''team1'' ''wh_b'' FAILED 30,
                      delivery ''c4'' ''team1'' ''wh_b'' FAILED 20],
             nextCursor = None\<rparr>, example_store)
   \<and> listCalls free_team (example_listCalls\<lparr>lci_limit := Some 51\<rparr>) example_store
     = (Inl (BAD_REQUEST []), example_store)"
  using listCalls_page [of example_listCalls free_team example_store]
        listCalls_page [of "example_listCalls\<lparr>lci_cursor := Some ''c4''\<rparr>" free_team example_store]
        listCalls_page [of "example_listCalls\<lparr>lci_limit := None, lci_status := Some FAILED\<rparr>"
                           free_team example_store]
        listCalls_page [of "example_listCalls\<lparr>lci_limit := Some 51\<rparr>" free_team example_store]
  by (simp add: example_listCalls_def free_team_def example_store_def delivery_def
      listCalls_def procedure_cases listCalls_input_def listCalls_query_def
      webhookCall_findMany_def webhookCall_where_def Let_def)

subsection \<open>What the schemas let into the table\<close>

lemma length_generateSecret: "length (generateSecret e) = 16"
  by (simp add: generateSecret_def)

lemma create_InrD:
  assumes "create e c inp db = (Inr row, db')"
  shows "create_input e inp = Inr inp
       \<and> db' = db\<lparr>webhooks := webhooks db @ [row]\<rparr>
       \<and> w_secret row = (case ci_secret inp of Some s \<Rightarrow> s | None \<Rightarrow> generateSecret e)
       \<and> w_eventTypes row = ci_eventTypes inp"
  using assms create_input_cases [of e inp]
  by (auto simp: create_def procedure_cases create_mutation_def webhook_create_def Let_def
           split: if_splits)

lemma create_input_InrD:
  assumes "create_input e inp = Inr inp"
  shows "ci_eventTypes inp \<noteq> [] \<and> set (ci_eventTypes inp) \<subseteq> set (WEBHOOK_EVENT_TYPES e)
       \<and> (\<forall>s. ci_secret inp = Some s \<longrightarrow> 16 \<le> length s)"
  using assms
  by (auto simp: create_input_def eventTypes_schema_def EVENT_TYPES_ENUM_def optional_def
           list_all_iff split: if_splits)

lemma update_input_InrD:
  assumes "update_input e inp = Inr inp"
  shows "(\<forall>ts. ui_eventTypes inp = Some ts \<longrightarrow>
            ts \<noteq> [] \<and> set ts \<subseteq> set (WEBHOOK_EVENT_TYPES e))
       \<and> (\<forall>s. ui_secret inp = Some s \<longrightarrow> 16 \<le> length s)"
  using assms
  by (auto simp: update_input_def eventTypes_schema_def EVENT_TYPES_ENUM_def optional_def
           list_all_iff split: if_splits)

lemma create_snd:
  "snd (create e c inp db) = db \<or> (\<exists>row. create e c inp db = (Inr row, snd (create e c inp db)))"
  using create_input_cases [of e inp]
  by (auto simp: create_def procedure_cases create_mutation_def Let_def)

lemma update_snd:
  "snd (update e c inp db) = db \<or> (\<exists>row. update e c inp db = (Inr row, snd (update e c inp db)))"
  using update_outcome [of e c inp db] by auto

lemma update_mutation_eventTypes:
  assumes "update_mutation e c inp db = (Inr row, db')"
  shows "\<exists>w. webhook_findFirst (ui_id inp) (t_id (team c)) db = Some w
           \<and> w_eventTypes row = (case ui_eventTypes inp of Some ts \<Rightarrow> ts | None \<Rightarrow> w_eventTypes w)"
  using assms
  by (auto simp: update_mutation_def webhook_update_def Let_def
           split: option.splits if_splits)

lemma setStatus_keeps:
  "map w_secret (webhooks (snd (setStatus c inp db))) = map w_secret (webhooks db)
   \<and> map w_eventTypes (webhooks (snd (setStatus c inp db))) = map w_eventTypes (webhooks db)"
proof -
  from setStatus_outcome [where c = c and inp = inp and db = db]
  consider "snd (setStatus c inp db) = db"
    | w where "webhook_findFirst (si_id inp) (t_id (team c)) db = Some w"
        "w_status w \<noteq> DELETED" "setStatus c inp db = setStatus_mutation c inp db"
    by auto
  then show ?thesis
  proof cases
    case 1
    then show ?thesis by simp
  next
    case (2 w)
    from setStatus_mutation_found [OF 2(1,2)] 2(3) show ?thesis
      by (simp add: comp_def)
  qed
qed

lemma serve_secret:
  assumes inv: "\<forall>w \<in> set (webhooks db). 16 \<le> length (w_secret w)"
  shows "\<forall>w \<in> set (webhooks (serve r db)). 16 \<le> length (w_secret w)"
proof (cases r)
  case (Create e c inp)
  from create_snd [of e c inp db] show ?thesis
  proof
    assume "snd (create e c inp db) = db"
    with inv Create show ?thesis by simp
  next
    assume "\<exists>row. create e c inp db = (Inr row, snd (create e c inp db))"
    then obtain row where run: "create e c inp db = (Inr row, snd (create e c inp db))" ..
    from create_InrD [OF run] create_input_InrD [of e inp]
    have "16 \<le> length (w_secret row)"
      and "webhooks (snd (create e c inp db)) = webhooks db @ [row]"
      by (auto simp: length_generateSecret split: option.splits)
    with inv Create show ?thesis by auto
  qed
next
  case (Update e c inp)
  from update_snd [of e c inp db] show ?thesis
  proof
    assume "snd (update e c inp db) = db"
    with inv Update show ?thesis by simp
  next
    assume "\<exists>row. update e c inp db = (Inr row, snd (update e c inp db))"
    then obtain row where run: "update e c inp db = (Inr row, snd (update e c inp db))" ..
    from update_InrD [OF run] have valid: "update_input e inp = Inr inp"
      and "update_mutation e c inp db = (Inr row, snd (update e c inp db))"
      by simp_all
    from update_mutation_InrD [OF this(2)]
    obtain w secret where found: "webhook_findFirst (ui_id inp) (t_id (team c)) db = Some w"
      and secret: "secret = (if ui_rotateSecret inp = Some True then generateSecret e
                       else case ui_secret inp of Some s \<Rightarrow> s | None \<Rightarrow> w_secret w)"
      and rows: "webhooks (snd (update e c inp db)) = map (\<lambda>r. if w_id r = w_id w
                   then r\<lparr>w_url := w_url row, w_description := w_description row,
                           w_eventTypes := w_eventTypes row, w_secret := secret\<rparr>
                   else r) (webhooks db)"
      by blast
    from webhook_findFirst_SomeD [OF found] inv have "16 \<le> length (w_secret w)"
      by simp
    with secret update_input_InrD [OF valid] have "16 \<le> length secret"
      by (auto simp: length_generateSecret split: option.splits)
    with inv rows Update show ?thesis by auto
  qed
next
  case (SetStatus c inp)
  from inv have "\<forall>v \<in> set (map w_secret (webhooks db)). 16 \<le> length v"
    by simp
  with setStatus_keeps [of c inp db]
  have "\<forall>v \<in> set (map w_secret (webhooks (snd (setStatus c inp db)))). 16 \<le> length v"
    by simp
  with SetStatus show ?thesis by simp
qed

lemma serve_all_secret:
  "\<forall>w \<in> set (webhooks db). 16 \<le> length (w_secret w) \<Longrightarrow>
   \<forall>w \<in> set (webhooks (serve_all rs db)). 16 \<le> length (w_secret w)"
proof (induction rs arbitrary: db)
  case Nil
  then show ?case by simp
next
  case (Cons r rs)
  from Cons.IH [OF serve_secret [OF Cons.prems, of r]] show ?case by simp
qed

lemma serve_eventTypes:
  assumes inv: "\<forall>w \<in> set (webhooks db). w_eventTypes w \<noteq> [] \<and> set (w_eventTypes w) \<subseteq> set E"
    and env: "\<forall>e. request_env r = Some e \<longrightarrow> WEBHOOK_EVENT_TYPES e = E"
  shows "\<forall>w \<in> set (webhooks (serve r db)). w_eventTypes w \<noteq> [] \<and> set (w_eventTypes w) \<subseteq> set E"
proof (cases r)
  case (Create e c inp)
  with env have E: "WEBHOOK_EVENT_TYPES e = E" by simp
  from create_snd [of e c inp db] show ?thesis
  proof
    assume "snd (create e c inp db) = db"
    with inv Create show ?thesis by simp
  next
    assume "\<exists>row. create e c inp db = (Inr row, snd (create e c inp db))"
    then obtain row where run: "create e c inp db = (Inr row, snd (create e c inp db))" ..
    from create_InrD [OF run] create_input_InrD [of e inp] E
    have "w_eventTypes row \<noteq> [] \<and> set (w_eventTypes row) \<subseteq> set E"
      and "webhooks (snd (create e c inp db)) = webhooks db @ [row]"
      by auto
    with inv Create show ?thesis by auto
  qed
next
  case (Update e c inp)
  with env have E: "WEBHOOK_EVENT_TYPES e = E" by simp
  from update_snd [of e c inp db] show ?thesis
  proof
    assume "snd (update e c inp db) = db"
    with inv Update show ?thesis by simp
  next
    assume "\<exists>row. update e c inp db = (Inr row, snd (update e c inp db))"
    then obtain row where run: "update e c inp db = (Inr row, snd (update e c inp db))" ..
    from update_InrD [OF run] have valid: "update_input e inp = Inr inp"
      and mut: "update_mutation e c inp db = (Inr row, snd (update e c inp db))"
      by simp_all
    from update_mutation_InrD [OF mut]
    obtain w secret where found: "webhook_findFirst (ui_id inp) (t_id (team c)) db = Some w"
      and rows: "webhooks (snd (update e c inp db)) = map (\<lambda>r. if w_id r = w_id w
                   then r\<lparr>w_url := w_url row, w_description := w_description row,
                           w_eventTypes := w_eventTypes row, w_secret := secret\<rparr>
                   else r) (webhooks db)"
      by blast
    from update_mutation_eventTypes [OF mut] found
    have types: "w_eventTypes row = (case ui_eventTypes inp of Some ts \<Rightarrow> ts | None \<Rightarrow> w_eventTypes w)"
      by simp
    from webhook_findFirst_SomeD [OF found] inv
    have "w_eventTypes w \<noteq> [] \<and> set (w_eventTypes w) \<subseteq> set E"
      by simp
    with types update_input_InrD [OF valid] E
    have "w_eventTypes row \<noteq> [] \<and> set (w_eventTypes row) \<subseteq> set E"
      by (auto split: option.splits)
    with inv rows Update show ?thesis by auto
  qed
next
  case (SetStatus c inp)
  from inv have "\<forall>v \<in> set (map w_eventTypes (webhooks db)). v \<noteq> [] \<and> set v \<subseteq> set E"
    by simp
  with setStatus_keeps [of c inp db]
  have "\<forall>v \<in> set (map w_eventTypes (webhooks (snd (setStatus c inp db)))).
          v \<noteq> [] \<and> set v \<subseteq> set E"
    by simp
  with SetStatus show ?thesis by simp
qed

lemma serve_all_eventTypes:
  "\<forall>w \<in> set (webhooks db). w_eventTypes w \<noteq> [] \<and> set (w_eventTypes w) \<subseteq> set E \<Longrightarrow>
   \<forall>r \<in> set rs. \<forall>e. request_env r = Some e \<longrightarrow> WEBHOOK_EVENT_TYPES e = E \<Longrightarrow>
   \<forall>w \<in> set (webhooks (serve_all rs db)). w_eventTypes w \<noteq> [] \<and> set (w_eventTypes w) \<subseteq> set E"
proof (induction rs arbitrary: db)
  case Nil
  then show ?case by simp
next
  case (Cons r rs)
  from Cons.prems(2) have r: "\<forall>e. request_env r = Some e \<longrightarrow> WEBHOOK_EVENT_TYPES e = E"
    and rs: "\<forall>r \<in> set rs. \<forall>e. request_env r = Some e \<longrightarrow> WEBHOOK_EVENT_TYPES e = E"
    by simp_all
  from Cons.IH [OF serve_eventTypes [OF Cons.prems(1) r] rs] show ?case by simp
qed

lemma generateSecret_example: "generateSecret example_env = ''rrrrrrrrrrrrrrrr''"
  by (simp add: generateSecret_def example_env_def upt_rec)

lemma example_requests_run:
  "webhooks (serve_all example_requests empty_store) =
     [\<lparr>w_id = ''wh_new'', w_teamId = ''team1'', w_url = ''https://example.com/in'',
       w_description = None, w_secret = ''an-explicit-secret-of-the-caller'',
       w_eventTypes = [''email.bounced''], w_status = PAUSED, w_consecutiveFailures = 0,
       w_createdByUserId = ''user1'', w_createdAt = 1700\<rparr>,
      \<lparr>w_id = ''wh_3'', w_teamId = ''team2'', w_url = ''https://example.com/in'',
       w_description = None, w_secret = ''a-secret-of-the-caller'',
       w_eventTypes = [''email.bounced'', ''email.sent''], w_status = ACTIVE,
       w_consecutiveFailures = 0, w_createdByUserId = ''user2'', w_createdAt = 1700\<rparr>]"
  by code_simp



lemma example_create_runs:
  "\<exists>row db'. create example_env free_team example_create empty_store = (Inr row, db')"
  by (simp add: example_env_def free_team_def example_create_def empty_store_def create_def
      procedure_cases create_input_def create_mutation_def eventTypes_schema_def
      EVENT_TYPES_ENUM_def optional_def getWebhookLimit_def webhook_count_def
      PLAN_WEBHOOK_LIMIT_FREE_def Let_def)

text \<open>
  C7. A \<open>create\<close> without a secret that succeeds stores, as the last row of the table,
  a row whose secret is the token of \<open>generateSecret\<close>; one with a secret that succeeds
  stores that secret, which then has at least 16 characters. A secret of fewer than 16
  characters makes \<open>create\<close> and \<open>update\<close> fail on the schema with the store untouched.
  Hence, however many requests the router serves on a table whose secrets all have at
  least 16 characters (the empty table for one), all secrets in the table have at least 16
  characters afterwards.
\<close>

theorem secrets_generated_or_long_enough:
  "(\<forall>row db'. create e c ci db = (Inr row, db') \<and> ci_secret ci = None
      \<longrightarrow> w_secret row = generateSecret e \<and> webhooks db' = webhooks db @ [row])
   \<and> (\<forall>row db' s. create e c ci db = (Inr row, db') \<and> ci_secret ci = Some s
      \<longrightarrow> w_secret row = s \<and> 16 \<le> length s)
   \<and> (\<forall>s. ci_secret ci = Some s \<and> length s < 16
      \<longrightarrow> create e c ci db = (Inl (BAD_REQUEST []), db))
   \<and> (\<forall>s. ui_secret ui = Some s \<and> length s < 16
      \<longrightarrow> update e c ui db = (Inl (BAD_REQUEST []), db))
   \<and> ((\<forall>w \<in> set (webhooks init). 16 \<le> length (w_secret w))
      \<longrightarrow> (\<forall>w \<in> set (webhooks (serve_all rs init)). 16 \<le> length (w_secret w)))"
proof (intro conjI impI allI)
  fix row db'
  assume "create e c ci db = (Inr row, db') \<and> ci_secret ci = None"
  then have run: "create e c ci db = (Inr row, db')" and none: "ci_secret ci = None"
    by simp_all
  from create_InrD [OF run] none
  show "w_secret row = generateSecret e" and "webhooks db' = webhooks db @ [row]"
    by simp_all
next
  fix row db' s
  assume "create e c ci db = (Inr row, db') \<and> ci_secret ci = Some s"
  then have run: "create e c ci db = (Inr row, db')" and some: "ci_secret ci = Some s"
    by simp_all
  from create_InrD [OF run] some create_input_InrD [of e ci]
  show "w_secret row = s" and "16 \<le> length s"
    by simp_all
next
  fix s
  assume "ci_secret ci = Some s \<and> length s < 16"
  with create_input_InrD [of e ci] create_input_cases [of e ci]
  have "create_input e ci = Inl (BAD_REQUEST [])" by auto
  then show "create e c ci db = (Inl (BAD_REQUEST []), db)"
    by (simp add: create_def procedure_cases)
next
  fix s
  assume "ui_secret ui = Some s \<and> length s < 16"
  with update_input_InrD [of e ui] update_input_cases [of e ui]
  have "update_input e ui = Inl (BAD_REQUEST [])" by auto
  then show "update e c ui db = (Inl (BAD_REQUEST []), db)"
    by (simp add: update_def procedure_cases)
next
  assume "\<forall>w \<in> set (webhooks init). 16 \<le> length (w_secret w)"
  then show "\<forall>w \<in> set (webhooks (serve_all rs init)). 16 \<le> length (w_secret w)"
    by (rule serve_all_secret)
qed

text \<open>
  On the example: the secret of a subscription created without one is the sixteen bytes
  of the random source; short secrets are refused by \<open>create\<close> and by \<open>update\<close>; after
  five requests on the empty table the two stored secrets are long enough.
\<close>

theorem secrets_generated_or_long_enough_witness:
  "(\<exists>row db'. create example_env free_team example_create empty_store = (Inr row, db')
        \<and> w_secret row = ''rrrrrrrrrrrrrrrr'')
   \<and> create example_env free_team (example_create\<lparr>ci_secret := Some ''too short''\<rparr>) empty_store
       = (Inl (BAD_REQUEST []), empty_store)
   \<and> update example_env free_team (example_update\<lparr>ui_secret := Some ''too short''\<rparr>) example_store
       = (Inl (BAD_REQUEST []), example_store)
   \<and> list_all (\<lambda>w. 16 \<le> length (w_secret w))
         (webhooks (serve_all example_requests empty_store))
   \<and> map w_secret (webhooks (serve_all example_requests empty_store))
       = [''an-explicit-secret-of-the-caller'', ''a-secret-of-the-caller'']"
proof (intro conjI)
  from example_create_runs obtain row db'
    where run: "create example_env free_team example_create empty_store = (Inr row, db')"
    by blast
  have "ci_secret example_create = None"
    by (simp add: example_create_def)
  with run secrets_generated_or_long_enough
         [where e = example_env and c = free_team and ci = example_create and db = empty_store,
          THEN conjunct1]
  have "w_secret row = generateSecret example_env"
    by blast
  with run show "\<exists>row db'. create example_env free_team example_create empty_store = (Inr row, db')
        \<and> w_secret row = ''rrrrrrrrrrrrrrrr''"
    by (auto simp: generateSecret_example)
  show "create example_env free_team (example_create\<lparr>ci_secret := Some ''too short''\<rparr>) empty_store
       = (Inl (BAD_REQUEST []), empty_store)"
    using secrets_generated_or_long_enough
         [where e = example_env and c = free_team and db = empty_store
            and ci = "example_create\<lparr>ci_secret := Some ''too short''\<rparr>",
          THEN conjunct2, THEN conjunct2, THEN conjunct1]
    by simp
  show "update example_env free_team (example_update\<lparr>ui_secret := Some ''too short''\<rparr>) example_store
       = (Inl (BAD_REQUEST []), example_store)"
    using secrets_generated_or_long_enough
         [where e = example_env and c = free_team and db = example_store
            and ui = "example_update\<lparr>ui_secret := Some ''too short''\<rparr>",
          THEN conjunct2, THEN conjunct2, THEN conjunct2, THEN conjunct1]
    by simp
  show "list_all (\<lambda>w. 16 \<le> length (w_secret w))
          (webhooks (serve_all example_requests empty_store))"
    using secrets_generated_or_long_enough
         [where init = empty_store and rs = example_requests,
          THEN conjunct2, THEN conjunct2, THEN conjunct2, THEN conjunct2]
    by (simp add: empty_store_def list_all_iff)
  show "map w_secret (webhooks (serve_all example_requests empty_store))
       = [''an-explicit-secret-of-the-caller'', ''a-secret-of-the-caller'']"
    by (simp add: example_requests_run)
qed

text \<open>
  C8. \<open>create\<close> fails on the schema, with the store untouched, when \<open>eventTypes\<close> is
  empty or holds a string that is not in \<open>WEBHOOK_EVENT_TYPES\<close>; so does \<open>update\<close> when
  it is given such a list. Hence, however many requests the router serves (all under the
  same enumeration \<open>E\<close>) on a table whose rows all have a non-empty \<open>eventTypes\<close> drawn
  from \<open>E\<close> (the empty table for one), every row of the table has a non-empty
  \<open>eventTypes\<close> drawn from \<open>E\<close> afterwards.
\<close>

theorem eventTypes_validated:
  "(ci_eventTypes ci = [] \<or> \<not> set (ci_eventTypes ci) \<subseteq> set (WEBHOOK_EVENT_TYPES e)
      \<longrightarrow> create e c ci db = (Inl (BAD_REQUEST []), db))
   \<and> (\<forall>ts. ui_eventTypes ui = Some ts \<and> (ts = [] \<or> \<not> set ts \<subseteq> set (WEBHOOK_EVENT_TYPES e))
      \<longrightarrow> update e c ui db = (Inl (BAD_REQUEST []), db))
   \<and> ((\<forall>r \<in> set rs. \<forall>e'. request_env r = Some e' \<longrightarrow> WEBHOOK_EVENT_TYPES e' = E)
       \<and> (\<forall>w \<in> set (webhooks init). w_eventTypes w \<noteq> [] \<and> set (w_eventTypes w) \<subseteq> set E)
      \<longrightarrow> (\<forall>w \<in> set (webhooks (serve_all rs init)).
             w_eventTypes w \<noteq> [] \<and> set (w_eventTypes w) \<subseteq> set E))"
proof (intro conjI impI allI)
  assume "ci_eventTypes ci = [] \<or> \<not> set (ci_eventTypes ci) \<subseteq> set (WEBHOOK_EVENT_TYPES e)"
  with create_input_InrD [of e ci] create_input_cases [of e ci]
  have "create_input e ci = Inl (BAD_REQUEST [])" by auto
  then show "create e c ci db = (Inl (BAD_REQUEST []), db)"
    by (simp add: create_def procedure_cases)
next
  fix ts
  assume "ui_eventTypes ui = Some ts \<and> (ts = [] \<or> \<not> set ts \<subseteq> set (WEBHOOK_EVENT_TYPES e))"
  with update_input_InrD [of e ui] update_input_cases [of e ui]
  have "update_input e ui = Inl (BAD_REQUEST [])" by auto
  then show "update e c ui db = (Inl (BAD_REQUEST []), db)"
    by (simp add: update_def procedure_cases)
next
  assume "(\<forall>r \<in> set rs. \<forall>e'. request_env r = Some e' \<longrightarrow> WEBHOOK_EVENT_TYPES e' = E)
       \<and> (\<forall>w \<in> set (webhooks init). w_eventTypes w \<noteq> [] \<and> set (w_eventTypes w) \<subseteq> set E)"
  then show "\<forall>w \<in> set (webhooks (serve_all rs init)).
             w_eventTypes w \<noteq> [] \<and> set (w_eventTypes w) \<subseteq> set E"
    using serve_all_eventTypes [of init E rs] by blast
qed

text \<open>
  On the example: empty lists and lists with an unknown event type are refused by
  \<open>create\<close> and by \<open>update\<close>; after five requests on the empty table both stored rows
  list known event types only.
\<close>

theorem eventTypes_validated_witness:
  "create example_env free_team (example_create\<lparr>ci_eventTypes := []\<rparr>) empty_store
       = (Inl (BAD_REQUEST []), empty_store)
   \<and> create example_env free_team (example_create\<lparr>ci_eventTypes := [''email.sent'', ''email.lost'']\<rparr>)
         empty_store
       = (Inl (BAD_REQUEST []), empty_store)
   \<and> update example_env free_team (example_update\<lparr>ui_eventTypes := Some []\<rparr>) example_store
       = (Inl (BAD_REQUEST []), example_store)
   \<and> update example_env free_team (example_update\<lparr>ui_eventTypes := Some [''email.lost'']\<rparr>)
         example_store
       = (Inl (BAD_REQUEST []), example_store)
   \<and> list_all (\<lambda>w. w_eventTypes w \<noteq> []
                      \<and> set (w_eventTypes w) \<subseteq> {''email.sent'', ''email.bounced''})
         (webhooks (serve_all example_requests empty_store))
   \<and> map w_eventTypes (webhooks (serve_all example_requests empty_store))
       = [[''email.bounced''], [''email.bounced'', ''email.sent'']]"
proof (intro conjI)
  show "create example_env free_team (example_create\<lparr>ci_eventTypes := []\<rparr>) empty_store
       = (Inl (BAD_REQUEST []), empty_store)"
    using eventTypes_validated
         [where e = example_env and c = free_team and db = empty_store
            and ci = "example_create\<lparr>ci_eventTypes := []\<rparr>", THEN conjunct1]
    by simp
  show "create example_env free_team
          (example_create\<lparr>ci_eventTypes := [''email.sent'', ''email.lost'']\<rparr>) empty_store
       = (Inl (BAD_REQUEST []), empty_store)"
    using eventTypes_validated
         [where e = example_env and c = free_team and db = empty_store
            and ci = "example_create\<lparr>ci_eventTypes := [''email.sent'', ''email.lost'']\<rparr>",
          THEN conjunct1]
    by (simp add: example_env_def)
  show "update example_env free_team (example_update\<lparr>ui_eventTypes := Some []\<rparr>) example_store
       = (Inl (BAD_REQUEST []), example_store)"
    using eventTypes_validated
         [where e = example_env and c = free_team and db = example_store
            and ui = "example_update\<lparr>ui_eventTypes := Some []\<rparr>",
          THEN conjunct2, THEN conjunct1]
    by simp
  show "update example_env free_team (example_update\<lparr>ui_eventTypes := Some [''email.lost'']\<rparr>)
         example_store
       = (Inl (BAD_REQUEST []), example_store)"
    using eventTypes_validated
         [where e = example_env and c = free_team and db = example_store
            and ui = "example_update\<lparr>ui_eventTypes := Some [''email.lost'']\<rparr>",
          THEN conjunct2, THEN conjunct1]
    by (simp add: example_env_def)
  have "\<forall>r \<in> set example_requests. \<forall>e'. request_env r = Some e' \<longrightarrow>
          WEBHOOK_EVENT_TYPES e' = [''email.sent'', ''email.bounced'']"
    by (simp add: example_requests_def example_env_def)
  with eventTypes_validated
         [where rs = example_requests and init = empty_store
            and E = "[''email.sent'', ''email.bounced'']",
          THEN conjunct2, THEN conjunct2]
  show "list_all (\<lambda>w. w_eventTypes w \<noteq> []
                      \<and> set (w_eventTypes w) \<subseteq> {''email.sent'', ''email.bounced''})
          (webhooks (serve_all example_requests empty_store))"
    by (simp add: empty_store_def list_all_iff)
  show "map w_eventTypes (webhooks (serve_all example_requests empty_store))
       = [[''email.bounced''], [''email.bounced'', ''email.sent'']]"
    by (simp add: example_requests_run)
qed

end
